theory Spec2Isabelle
  imports Complex_Main "HOL-Library.AList"
begin

section \<open>Fragments of the Go standard library that the packages call\<close>

text \<open>
  A Go \<open>error\<close> is modelled by the string its \<open>Error()\<close> method returns. A function
  returning \<open>(T, error)\<close> has the result type \<open>error + T\<close> (\<open>Inl\<close> the error); a
  function returning only \<open>error\<close> has the result type \<open>error + unit\<close>, where
  \<open>Inr ()\<close> is the \<open>nil\<close> error.
\<close>

type_synonym error = string

subsection \<open>strings\<close>

definition HasPrefix :: "string \<Rightarrow> string \<Rightarrow> bool" where
  "HasPrefix s pre = (take (length pre) s = pre)"

definition TrimPrefix :: "string \<Rightarrow> string \<Rightarrow> string" where
  "TrimPrefix s pre = (if HasPrefix s pre then drop (length pre) s else s)"

subsection \<open>fmt\<close>

text \<open>The verb \<open>%d\<close> applied to an integer: its decimal digits, with a minus sign.\<close>

fun digits :: "nat \<Rightarrow> string" where
  "digits n = (if n < 10 then [''0123456789'' ! n]
               else digits (n div 10) @ [''0123456789'' ! (n mod 10)])"

declare digits.simps [simp del]

definition Itoa :: "int \<Rightarrow> string" where
  "Itoa i = (if i < 0 then CHR ''-'' # digits (nat (- i)) else digits (nat i))"

text \<open>
  \<open>fmt.Errorf(format)\<close> called with a format string and no operands. Bytes other than
  \<open>%\<close> are copied. After a \<open>%\<close> the flags \<open>#0+-\<close> and space are read, then the
  verb: \<open>%%\<close> prints a percent sign, any other verb \<open>v\<close> finds no operand and prints
  \<open>%!v(MISSING)\<close>, and a format that ends before the verb prints \<open>%!(NOVERB)\<close>.
  A directive with a width, a precision or an argument index (a digit, \<open>.\<close>, \<open>*\<close> or
  \<open>[\<close> after the flags) or with a verb outside ASCII is not interpreted here: the
  format from that directive on is given to \<open>rest\<close>, which stands for what the library
  prints for it.
\<close>

fun skip_flags :: "string \<Rightarrow> string" where
  "skip_flags [] = []"
| "skip_flags (c # cs) = (if c \<in> set ''#0+- '' then skip_flags cs else c # cs)"

lemma length_skip_flags: "length (skip_flags cs) \<le> length cs"
  by (induction cs) auto

definition plain_verb :: "char \<Rightarrow> bool" where
  "plain_verb v = ((of_char v :: nat) < 128 \<and> v \<notin> set ''123456789.*['')"

function Errorf0 :: "(string \<Rightarrow> string) \<Rightarrow> string \<Rightarrow> error" where
  "Errorf0 rest [] = []"
| "Errorf0 rest (c # cs) =
     (if c \<noteq> CHR ''%'' then c # Errorf0 rest cs
      else (case skip_flags cs of
              [] \<Rightarrow> ''%!(NOVERB)''
            | v # cs' \<Rightarrow>
                if \<not> plain_verb v then rest (c # cs)
                else (if v = CHR ''%'' then ''%'' else ''%!'' @ [v] @ ''(MISSING)'') @
                     Errorf0 rest cs'))"
  by pat_completeness auto
termination
proof (relation "measure (\<lambda>(rest, s). length s)")
  show "wf (measure (\<lambda>(rest, s). length s))" by simp
next
  fix rest :: "string \<Rightarrow> string" and c :: char and cs :: string
  show "((rest, cs), (rest, c # cs)) \<in> measure (\<lambda>(rest, s). length s)" by simp
next
  fix rest :: "string \<Rightarrow> string" and c :: char and cs :: string and v :: char and cs' :: string
  assume "skip_flags cs = v # cs'"
  then have "length (v # cs') \<le> length cs"
    using length_skip_flags [of cs] by simp
  then show "((rest, cs'), (rest, c # cs)) \<in> measure (\<lambda>(rest, s). length s)" by simp
qed

subsection \<open>net/textproto and net/http\<close>

text \<open>
  \<open>textproto.CanonicalMIMEHeaderKey\<close>: a key made of header-field bytes only has its
  first letter and every letter after a hyphen in upper case and all other letters in
  lower case; a key with any other byte is returned unchanged.
\<close>

definition lower_letters :: string where
  "lower_letters = ''abcdefghijklmnopqrstuvwxyz''"

definition upper_letters :: string where
  "upper_letters = ''ABCDEFGHIJKLMNOPQRSTUVWXYZ''"

definition toUpper :: "char \<Rightarrow> char" where
  "toUpper c = (case map_of (zip lower_letters upper_letters) c of Some u \<Rightarrow> u | None \<Rightarrow> c)"

definition toLower :: "char \<Rightarrow> char" where
  "toLower c = (case map_of (zip upper_letters lower_letters) c of Some l \<Rightarrow> l | None \<Rightarrow> c)"

definition validHeaderFieldByte :: "char \<Rightarrow> bool" where
  "validHeaderFieldByte c =
     (c \<in> set lower_letters \<or> c \<in> set upper_letters \<or> c \<in> set ''0123456789'' \<or>
      c \<in> set (''!#$%&*+-.^_|~'' @ [CHR 0x27, CHR 0x60]))"

fun canonical :: "bool \<Rightarrow> string \<Rightarrow> string" where
  "canonical upper [] = []"
| "canonical upper (c # cs) =
     (if upper then toUpper c # canonical (toUpper c = CHR ''-'') cs
      else toLower c # canonical (toLower c = CHR ''-'') cs)"

definition CanonicalMIMEHeaderKey :: "string \<Rightarrow> string" where
  "CanonicalMIMEHeaderKey s = (if list_all validHeaderFieldByte s then canonical True s else s)"

text \<open>
  \<open>http.Header\<close> is a \<open>map[string][]string\<close>: an association list with one entry
  per key. \<open>Get\<close>, \<open>Add\<close> and \<open>Set\<close> canonicalise the key they are given; ranging
  over the map visits the entries of the list.
\<close>

type_synonym Header = "(string \<times> string list) list"

definition Header_Get :: "Header \<Rightarrow> string \<Rightarrow> string" where
  "Header_Get h key =
     (case map_of h (CanonicalMIMEHeaderKey key) of
        Some (v # vs) \<Rightarrow> v
      | _ \<Rightarrow> [])"

definition Header_Add :: "Header \<Rightarrow> string \<Rightarrow> string \<Rightarrow> Header" where
  "Header_Add h key v =
     (let k = CanonicalMIMEHeaderKey key
      in AList.update k ((case map_of h k of Some vs \<Rightarrow> vs | None \<Rightarrow> []) @ [v]) h)"

definition Header_Set :: "Header \<Rightarrow> string \<Rightarrow> string \<Rightarrow> Header" where
  "Header_Set h key v = AList.update (CanonicalMIMEHeaderKey key) [v] h"

text \<open>
  What the HTTP transport sends and what the client reads. The transport refuses a
  request with a header whose name is empty or has a byte that is not a header-field
  byte (\<open>httpguts.ValidHeaderFieldName\<close>), or with a header value that has a control
  byte other than a tab (\<open>httpguts.ValidHeaderFieldValue\<close>). A header value crosses
  the wire without the blanks around it (\<open>textproto.TrimString\<close>), and the client
  canonicalises the key of every header it reads.
\<close>

definition ValidHeaderFieldName :: "string \<Rightarrow> bool" where
  "ValidHeaderFieldName k = (k \<noteq> [] \<and> list_all validHeaderFieldByte k)"

definition isCTL :: "char \<Rightarrow> bool" where
  "isCTL c = ((of_char c :: nat) < 32 \<or> (of_char c :: nat) = 127)"

definition isLWS :: "char \<Rightarrow> bool" where
  "isLWS c = (c = CHR '' '' \<or> c = CHR 0x09)"

definition ValidHeaderFieldValue :: "string \<Rightarrow> bool" where
  "ValidHeaderFieldValue v = list_all (\<lambda>c. \<not> (isCTL c \<and> \<not> isLWS c)) v"

definition isASCIISpace :: "char \<Rightarrow> bool" where
  "isASCIISpace c = (c = CHR '' '' \<or> c = CHR 0x09 \<or> c = CHR 0x0A \<or> c = CHR 0x0D)"

definition TrimString :: "string \<Rightarrow> string" where
  "TrimString s = rev (dropWhile isASCIISpace (rev (dropWhile isASCIISpace s)))"

definition sendable :: "Header \<Rightarrow> bool" where
  "sendable hdr =
     list_all (\<lambda>(k, vs). ValidHeaderFieldName k \<and> list_all ValidHeaderFieldValue vs) hdr"

definition read_header :: "Header \<Rightarrow> Header" where
  "read_header hdr = map (\<lambda>(k, vs). (CanonicalMIMEHeaderKey k, map TrimString vs)) hdr"

definition StatusOK :: int where "StatusOK = 200"
definition StatusUnauthorized :: int where "StatusUnauthorized = 401"
definition StatusNotFound :: int where "StatusNotFound = 404"

definition MethodGet :: string where "MethodGet = ''GET''"
definition MethodPost :: string where "MethodPost = ''POST''"
definition MethodPut :: string where "MethodPut = ''PUT''"
definition MethodDelete :: string where "MethodDelete = ''DELETE''"


text \<open>
  The \<open>http.ResponseWriter\<close> of the standard server: the header map, the status
  code once written (a second \<open>WriteHeader\<close> is ignored, a \<open>Write\<close> before any
  \<open>WriteHeader\<close> writes status 200) and the bytes written to the body.
\<close>

record ResponseWriter =
  wHeader :: Header
  wStatus :: "int option"
  wBody :: string

definition WriteHeader :: "ResponseWriter \<Rightarrow> int \<Rightarrow> ResponseWriter" where
  "WriteHeader w code = (if wStatus w = None then w\<lparr>wStatus := Some code\<rparr> else w)"

definition Write :: "ResponseWriter \<Rightarrow> string \<Rightarrow> ResponseWriter" where
  "Write w bs = (WriteHeader w StatusOK)\<lparr>wBody := wBody w @ bs\<rparr>"

text \<open>
  \<open>http.Error(w, error, code)\<close>: sets the content type headers, writes the status
  code and prints the message followed by a newline. (Recent releases also delete
  some headers of the response first; the properties below do not read the headers.)
\<close>

definition http_Error :: "ResponseWriter \<Rightarrow> string \<Rightarrow> int \<Rightarrow> ResponseWriter" where
  "http_Error w err code =
     Write
       (WriteHeader
          (w\<lparr>wHeader :=
               Header_Set (Header_Set (wHeader w) ''Content-Type'' ''text/plain; charset=utf-8'')
                 ''X-Content-Type-Options'' ''nosniff''\<rparr>)
          code)
       (err @ [CHR 0x0A])"

subsection \<open>net/url\<close>

text \<open>
  \<open>url.PathEscape\<close> and \<open>url.QueryEscape\<close>: \<open>shouldEscape\<close> in the two modes they
  use. Letters, digits and \<open>-_.~\<close> are never escaped; of the reserved bytes a path
  segment escapes only \<open>/ ; , ?\<close> and a query component escapes all; every other byte
  is escaped. An escaped byte is written \<open>%XX\<close> in upper-case hexadecimal, except that
  a query component writes a space as \<open>+\<close>.
\<close>

datatype encoding = encodePathSegment | encodeQueryComponent

definition upperhex :: string where
  "upperhex = ''0123456789ABCDEF''"

definition shouldEscape :: "char \<Rightarrow> encoding \<Rightarrow> bool" where
  "shouldEscape c mode =
     (if c \<in> set lower_letters \<or> c \<in> set upper_letters \<or> c \<in> set ''0123456789'' then False
      else if c \<in> set ''-_.~'' then False
      else if c \<in> set ''$&+,/:;=?@'' then
        (case mode of
           encodePathSegment \<Rightarrow> c \<in> set ''/;,?''
         | encodeQueryComponent \<Rightarrow> True)
      else True)"

definition escape_byte :: "encoding \<Rightarrow> char \<Rightarrow> string" where
  "escape_byte mode c =
     (if c = CHR '' '' \<and> mode = encodeQueryComponent then ''+''
      else if shouldEscape c mode then
        [CHR ''%'', upperhex ! (of_char c div 16), upperhex ! (of_char c mod 16)]
      else [c])"

definition escape :: "string \<Rightarrow> encoding \<Rightarrow> string" where
  "escape s mode = concat (map (escape_byte mode) s)"

definition PathEscape :: "string \<Rightarrow> string" where
  "PathEscape s = escape s encodePathSegment"

definition QueryEscape :: "string \<Rightarrow> string" where
  "QueryEscape s = escape s encodeQueryComponent"

subsection \<open>os\<close>



subsection \<open>The HTTP client\<close>

text \<open>
  An HTTP response as the client returns it: \<open>ReadErr\<close> is the error, if any, that
  reading the body to its end reports.
\<close>

record Response =
  StatusCode :: int
  ResponseHeader :: Header
  ResponseBody :: string
  ReadErr :: "error option"

record http_Client =
  ClientTimeout :: int

subsection \<open>The Firebase SDK, context, encoding/json and the HTTP request\<close>

text \<open>
  \<open>auth.Token\<close> of the Firebase SDK, the verified claims of an ID token. The SDK's
  client is external: \<open>FirebaseAuth\<close> holds its \<open>VerifyIDToken\<close> as a function from
  the request context and the token string to an error or a token.
\<close>

record Token =
  Issuer :: string
  Subject :: string
  UID :: string
  Claims :: "(string \<times> string) list"

text \<open>
  A \<open>context.Context\<close> is a chain of key/value pairs; \<open>WithValue\<close> puts a pair in
  front and \<open>Value\<close> returns the innermost value of a key. The keys of this package
  have the unexported type \<open>contextKey\<close>; keys of any other type are \<open>foreignKey\<close>.
  A value is a \<open>*auth.Token\<close>, a string or a value of another type.
\<close>

datatype ctxKey = contextKey string | foreignKey string

datatype ctxValue = TokenValue Token | StringValue string | OtherValue string

type_synonym Context = "(ctxKey \<times> ctxValue) list"

definition tokenKey :: ctxKey where "tokenKey = contextKey ''token''"
definition uidKey :: ctxKey where "uidKey = contextKey ''uid''"

definition WithValue :: "Context \<Rightarrow> ctxKey \<Rightarrow> ctxValue \<Rightarrow> Context" where
  "WithValue ctx k v = (k, v) # ctx"

definition Value :: "Context \<Rightarrow> ctxKey \<Rightarrow> ctxValue option" where
  "Value ctx k = map_of ctx k"

text \<open>
  A JSON document, as \<open>encoding/json\<close> writes one: the body of a request is kept as
  the document, not as its bytes.
\<close>

datatype jvalue =
    JNull
  | JBool bool
  | JInt int
  | JString string
  | JArray "jvalue list"
  | JObject "(string \<times> jvalue) list"

datatype Body = NoBody | JSONBody jvalue | RawBody string

record Request =
  Method :: string
  URL :: string
  Header :: Header
  Body :: Body
  Ctx :: Context

section \<open>Package firebase: auth.go\<close>

record FirebaseAuth =
  Auth_VerifyIDToken :: "Context \<Rightarrow> string \<Rightarrow> error + Token"

definition VerifyIDToken :: "FirebaseAuth \<Rightarrow> Context \<Rightarrow> string \<Rightarrow> error + Token" where
  "VerifyIDToken fa ctx idToken =
     (if idToken = [] then Inl ''id token is empty''
      else (case Auth_VerifyIDToken fa ctx idToken of
              Inl err \<Rightarrow> Inl (''error verifying ID token: '' @ err)
            | Inr token \<Rightarrow> Inr token))"

definition GetTokenFromRequest :: "Request \<Rightarrow> error + string" where
  "GetTokenFromRequest r =
     (let authHeader = Header_Get (Header r) ''Authorization''
      in if authHeader = [] then Inl ''authorization header is required''
         else if HasPrefix authHeader ''Bearer '' then Inr (TrimPrefix authHeader ''Bearer '')
         else Inl (''authorization header must be in the format '' @ [CHR 0x27] @
                   ''Bearer {token}'' @ [CHR 0x27]))"

text \<open>
  A handler acts on the response writer and on the rest of the world \<open>'s\<close> that the
  wrapped handler may change. \<open>http.Handler\<close> and \<open>http.HandlerFunc\<close> are the same
  functions.
\<close>

type_synonym 's Handler = "ResponseWriter \<times> 's \<Rightarrow> Request \<Rightarrow> ResponseWriter \<times> 's"

definition AuthMiddleware :: "FirebaseAuth \<Rightarrow> 's Handler \<Rightarrow> 's Handler" where
  "AuthMiddleware fa next = (\<lambda>(w, s) r.
     case GetTokenFromRequest r of
       Inl err \<Rightarrow> (http_Error w err StatusUnauthorized, s)
     | Inr idToken \<Rightarrow>
         (case VerifyIDToken fa (Ctx r) idToken of
            Inl err \<Rightarrow> (http_Error w (''Invalid token: '' @ err) StatusUnauthorized, s)
          | Inr token \<Rightarrow>
              (let ctx = WithValue (Ctx r) tokenKey (TokenValue token);
                   ctx = WithValue ctx uidKey (StringValue (UID token))
               in next (w, s) (r\<lparr>Ctx := ctx\<rparr>))))"

definition RequireAuth :: "FirebaseAuth \<Rightarrow> 's Handler \<Rightarrow> 's Handler" where
  "RequireAuth fa next = (\<lambda>(w, s) r.
     case GetTokenFromRequest r of
       Inl err \<Rightarrow> (http_Error w err StatusUnauthorized, s)
     | Inr idToken \<Rightarrow>
         (case VerifyIDToken fa (Ctx r) idToken of
            Inl err \<Rightarrow> (http_Error w (''Invalid token: '' @ err) StatusUnauthorized, s)
          | Inr token \<Rightarrow>
              (let ctx = WithValue (Ctx r) tokenKey (TokenValue token);
                   ctx = WithValue ctx uidKey (StringValue (UID token))
               in next (w, s) (r\<lparr>Ctx := ctx\<rparr>))))"

definition GetUIDFromContext :: "Context \<Rightarrow> error + string" where
  "GetUIDFromContext ctx =
     (case Value ctx uidKey of
        Some (StringValue uid) \<Rightarrow> Inr uid
      | _ \<Rightarrow> Inl ''uid not found in context or not a string'')"

definition GetTokenFromContext :: "Context \<Rightarrow> error + Token" where
  "GetTokenFromContext ctx =
     (case Value ctx tokenKey of
        Some (TokenValue token) \<Rightarrow> Inr token
      | _ \<Rightarrow> Inl ''token not found in context or not correct type'')"

text \<open>
  An observer of the wrapped handler: \<open>traced next\<close> behaves as \<open>next\<close> and appends
  every request it is invoked with to a log kept beside the world.
\<close>

definition traced :: "'s Handler \<Rightarrow> ('s \<times> Request list) Handler" where
  "traced next = (\<lambda>(w, (s, calls)) r.
     case next (w, s) r of (w', s') \<Rightarrow> (w', (s', calls @ [r])))"


section \<open>Package cloudflare: the configuration and the clients' constructors\<close>

record CloudflareConfig =
  APIToken :: string
  AccountID :: string
  BaseURL :: string
  Timeout :: int

text \<open>
  A \<open>*CloudflareConfig\<close> is an address in a heap of configurations, so that the
  clients made from one configuration share it. Dereferencing an address outside the
  heap (the \<open>nil\<close> pointer) panics: the functions return \<open>None\<close>.
\<close>

type_synonym addr = nat
type_synonym heap = "CloudflareConfig list"

definition deref :: "heap \<Rightarrow> addr \<Rightarrow> CloudflareConfig option" where
  "deref h a = (if a < length h then Some (h ! a) else None)"

definition alloc :: "heap \<Rightarrow> CloudflareConfig \<Rightarrow> heap \<times> addr" where
  "alloc h c = (h @ [c], length h)"

definition Second :: int where
  "Second = 1000000000"

definition NewConfig :: "heap \<Rightarrow> string \<Rightarrow> string \<Rightarrow> heap \<times> addr" where
  "NewConfig h apiToken accountID =
     alloc h \<lparr>APIToken = apiToken, AccountID = accountID,
               BaseURL = ''https://api.cloudflare.com/client/v4'', Timeout = 30 * Second\<rparr>"

definition createHTTPClient :: "CloudflareConfig \<Rightarrow> http_Client" where
  "createHTTPClient c = \<lparr>ClientTimeout = Timeout c\<rparr>"

text \<open>
  \<open>D1Client\<close>, \<open>R2Client\<close> and \<open>KVClient\<close> are three structs with the same two
  fields.
\<close>

record Client =
  config :: addr
  client :: http_Client

type_synonym D1Client = Client
type_synonym R2Client = Client
type_synonym KVClient = Client

definition NewD1Client :: "heap \<Rightarrow> addr \<Rightarrow> (heap \<times> D1Client) option" where
  "NewD1Client h cfg =
     (case deref h cfg of
        None \<Rightarrow> None
      | Some c \<Rightarrow>
          (let c' = (if BaseURL c = [] then c\<lparr>BaseURL := ''https://api.cloudflare.com/client/v4''\<rparr>
                     else c)
           in Some (h[cfg := c'], \<lparr>config = cfg, client = createHTTPClient c'\<rparr>)))"

definition NewR2Client :: "heap \<Rightarrow> addr \<Rightarrow> (heap \<times> R2Client) option" where
  "NewR2Client h cfg =
     (case deref h cfg of
        None \<Rightarrow> None
      | Some c \<Rightarrow>
          (let c' = (if BaseURL c = [] then c\<lparr>BaseURL := ''https://api.cloudflare.com/client/v4''\<rparr>
                     else c)
           in Some (h[cfg := c'], \<lparr>config = cfg, client = createHTTPClient c'\<rparr>)))"

definition NewKVClient :: "heap \<Rightarrow> addr \<Rightarrow> (heap \<times> KVClient) option" where
  "NewKVClient h cfg =
     (case deref h cfg of
        None \<Rightarrow> None
      | Some c \<Rightarrow>
          (let c' = (if BaseURL c = [] then c\<lparr>BaseURL := ''https://api.cloudflare.com/client/v4''\<rparr>
                     else c)
           in Some (h[cfg := c'], \<lparr>config = cfg, client = createHTTPClient c'\<rparr>)))"

record Storage =
  D1 :: D1Client
  R2 :: R2Client
  KV :: KVClient

definition NewStorage :: "heap \<Rightarrow> addr \<Rightarrow> (heap \<times> Storage) option" where
  "NewStorage h cfg =
     (case NewD1Client h cfg of
        None \<Rightarrow> None
      | Some (h1, d1) \<Rightarrow>
          (case NewR2Client h1 cfg of
             None \<Rightarrow> None
           | Some (h2, r2) \<Rightarrow>
               (case NewKVClient h2 cfg of
                  None \<Rightarrow> None
                | Some (h3, kv) \<Rightarrow> Some (h3, \<lparr>D1 = d1, R2 = r2, KV = kv\<rparr>))))"



section \<open>The outside of the program\<close>

text \<open>
  What the operations get from outside the repository: what \<open>fmt\<close> prints for the
  directives that \<open>Errorf0\<close> leaves to it (\<open>fmt_rest\<close>), what
  \<open>http.NewRequestWithContext\<close> makes of a URL string (\<open>url_Parse\<close>: an error, or
  the URL of the request, which the library parses from the string and encodes again
  when the request is sent), what the HTTP client's
  \<open>Do\<close> returns for a request (an error before any response, or a response), and what
  \<open>json.Decoder.Decode\<close> makes of a body for each of the response structs (an error,
  or the decoded struct). The \<open>float32\<close> fields of the D1 metadata are kept as reals;
  no operation computes with them.
\<close>

record D1Meta =
  ChangedDB :: bool
  Changes :: int
  Duration :: real
  LastRowID :: int
  RowsRead :: int
  RowsWritten :: int
  ServedByPrimary :: bool
  ServedByRegion :: string
  SizeAfter :: int
  SQLDurationMS :: real

record D1ResponseItem =
  Meta :: D1Meta
  Results :: "(string \<times> jvalue) list list"
  item_Success :: bool

record D1Error =
  Code :: int
  Message :: string
  DocumentationURL :: string
  Pointer :: string

record D1Response =
  Errors :: "D1Error list"
  Messages :: "D1Error list"
  Result :: "D1ResponseItem list"
  Success :: bool

record KVKey =
  Name :: string
  Expiration :: int

record R2Object =
  Key :: string
  Size :: int
  ETag :: string
  ContentType :: string
  LastModified :: string
  Metadata :: "(string \<times> string) list"

record Outside =
  fmt_rest :: "string \<Rightarrow> string"
  url_Parse :: "string \<Rightarrow> error + string"
  client_Do :: "http_Client \<Rightarrow> Request \<Rightarrow> error + Response"
  decode_D1Response :: "string \<Rightarrow> error + D1Response"
  decode_Success :: "string \<Rightarrow> error + bool"
  decode_KVKeys :: "string \<Rightarrow> error + bool \<times> KVKey list"
  decode_R2Object :: "string \<Rightarrow> error + bool \<times> R2Object"

definition NewRequestWithContext ::
  "Outside \<Rightarrow> Context \<Rightarrow> string \<Rightarrow> string \<Rightarrow> Body \<Rightarrow> error + Request" where
  "NewRequestWithContext out ctx method url body =
     (case url_Parse out url of
        Inl err \<Rightarrow> Inl err
      | Inr u \<Rightarrow> Inr \<lparr>Method = method, URL = u, Header = [], Body = body, Ctx = ctx\<rparr>)"

section \<open>Package cloudflare: D1\<close>

text \<open>
  A query parameter is an \<open>interface{}\<close>: \<open>nil\<close>, a boolean, an integer, a string, or
  a value of a type that \<open>encoding/json\<close> cannot encode (a channel, a function), kept
  by the name of its type.
\<close>

datatype go_value = GoNil | GoBool bool | GoInt int | GoString string | GoUnsupported string

fun Marshal_value :: "go_value \<Rightarrow> error + jvalue" where
  "Marshal_value GoNil = Inr JNull"
| "Marshal_value (GoBool b) = Inr (JBool b)"
| "Marshal_value (GoInt i) = Inr (JInt i)"
| "Marshal_value (GoString s) = Inr (JString s)"
| "Marshal_value (GoUnsupported t) = Inl (''json: unsupported type: '' @ t)"

fun Marshal_values :: "go_value list \<Rightarrow> error + jvalue list" where
  "Marshal_values [] = Inr []"
| "Marshal_values (v # vs) =
     (case Marshal_value v of
        Inl err \<Rightarrow> Inl err
      | Inr j \<Rightarrow> (case Marshal_values vs of Inl err \<Rightarrow> Inl err | Inr js \<Rightarrow> Inr (j # js)))"

text \<open>
  The request body struct of \<open>ExecuteQuery\<close>: \<open>SQL\<close> with the tag \<open>json:"sql"\<close> and
  \<open>Params\<close>, an \<open>interface{}\<close> with the tag \<open>json:"params,omitempty"\<close>, which
  \<open>json.Marshal\<close> leaves out when the interface is \<open>nil\<close>.
\<close>

record requestBody =
  SQL :: string
  Params :: "go_value list option"

definition json_Marshal :: "requestBody \<Rightarrow> error + jvalue" where
  "json_Marshal b =
     (case Params b of
        None \<Rightarrow> Inr (JObject [(''sql'', JString (SQL b))])
      | Some ps \<Rightarrow>
          (case Marshal_values ps of
             Inl err \<Rightarrow> Inl err
           | Inr js \<Rightarrow> Inr (JObject [(''sql'', JString (SQL b)), (''params'', JArray js)])))"

text \<open>
  Every operation is written in two parts: the part up to the request that is handed
  to the HTTP client (\<open>_request\<close>), and the operation itself, which sends that request
  and reads the response.
\<close>

definition ExecuteQuery_request ::
  "Outside \<Rightarrow> CloudflareConfig \<Rightarrow> Context \<Rightarrow> string \<Rightarrow> string \<Rightarrow> go_value list \<Rightarrow>
   error + Request" where
  "ExecuteQuery_request out c ctx databaseID query params =
     (let url = BaseURL c @ ''/accounts/'' @ AccountID c @ ''/d1/database/'' @ databaseID @ ''/query'';
          requestBody = \<lparr>SQL = query, Params = (if params \<noteq> [] then Some params else None)\<rparr>
      in case json_Marshal requestBody of
           Inl err \<Rightarrow> Inl (''error marshaling request: '' @ err)
         | Inr jsonBody \<Rightarrow>
             (case NewRequestWithContext out ctx MethodPost url (JSONBody jsonBody) of
                Inl err \<Rightarrow> Inl (''error creating request: '' @ err)
              | Inr req \<Rightarrow>
                  Inr (req\<lparr>Header :=
                         Header_Set (Header_Set (Header req) ''Content-Type'' ''application/json'')
                           ''Authorization'' (''Bearer '' @ APIToken c)\<rparr>)))"

definition ExecuteQuery ::
  "Outside \<Rightarrow> heap \<Rightarrow> D1Client \<Rightarrow> Context \<Rightarrow> string \<Rightarrow> string \<Rightarrow> go_value list \<Rightarrow>
   (error + D1ResponseItem) option" where
  "ExecuteQuery out h d ctx databaseID query params =
     (case deref h (config d) of
        None \<Rightarrow> None
      | Some c \<Rightarrow> Some
         (case ExecuteQuery_request out c ctx databaseID query params of
            Inl err \<Rightarrow> Inl err
          | Inr req \<Rightarrow>
         (case client_Do out (client d) req of
            Inl err \<Rightarrow> Inl (''error making request: '' @ err)
          | Inr resp \<Rightarrow>
              if StatusCode resp \<noteq> StatusOK then
                Inl (''unexpected status code: '' @ Itoa (StatusCode resp) @ '', body: '' @
                     ResponseBody resp)
              else
                (case decode_D1Response out (ResponseBody resp) of
                   Inl err \<Rightarrow> Inl (''error decoding response: '' @ err)
                 | Inr response \<Rightarrow>
                     if \<not> Success response then
                       Inl (Errorf0 (fmt_rest out)
                              (case Errors response of
                                 [] \<Rightarrow> ''request was not successful''
                               | e # es \<Rightarrow> ''request was not successful'' @ '': '' @ Message e))
                     else
                       (case Result response of
                          [] \<Rightarrow> Inl ''empty result set''
                        | item # items \<Rightarrow> Inr item)))))"

section \<open>Package cloudflare: KV\<close>

definition ListKeys_request ::
  "Outside \<Rightarrow> CloudflareConfig \<Rightarrow> Context \<Rightarrow> string \<Rightarrow> string \<Rightarrow> error + Request" where
  "ListKeys_request out c ctx namespaceID prefix =
     (let urlPath = BaseURL c @ ''/accounts/'' @ AccountID c @ ''/storage/kv/namespaces/'' @
                    namespaceID @ ''/keys'';
          urlPath = (if prefix \<noteq> [] then urlPath @ ''?prefix='' @ QueryEscape prefix else urlPath)
      in case NewRequestWithContext out ctx MethodGet urlPath NoBody of
           Inl err \<Rightarrow> Inl (''error creating request: '' @ err)
         | Inr req \<Rightarrow>
             Inr (req\<lparr>Header := Header_Add (Header req) ''Authorization'' (''Bearer '' @ APIToken c)\<rparr>))"

definition ListKeys ::
  "Outside \<Rightarrow> heap \<Rightarrow> KVClient \<Rightarrow> Context \<Rightarrow> string \<Rightarrow> string \<Rightarrow> (error + KVKey list) option" where
  "ListKeys out h k ctx namespaceID prefix =
     (case deref h (config k) of
        None \<Rightarrow> None
      | Some c \<Rightarrow> Some
         (case ListKeys_request out c ctx namespaceID prefix of
            Inl err \<Rightarrow> Inl err
          | Inr req \<Rightarrow>
         (case client_Do out (client k) req of
            Inl err \<Rightarrow> Inl (''error making request: '' @ err)
          | Inr resp \<Rightarrow>
              if StatusCode resp \<noteq> StatusOK then
                Inl (''unexpected status code: '' @ Itoa (StatusCode resp))
              else
                (case decode_KVKeys out (ResponseBody resp) of
                   Inl err \<Rightarrow> Inl (''error decoding response: '' @ err)
                 | Inr (success, result) \<Rightarrow>
                     if \<not> success then Inl ''request was not successful''
                     else Inr result))))"

definition WriteValue_request ::
  "Outside \<Rightarrow> CloudflareConfig \<Rightarrow> Context \<Rightarrow> string \<Rightarrow> string \<Rightarrow> string \<Rightarrow> int option \<Rightarrow>
   error + Request" where
  "WriteValue_request out c ctx namespaceID key val expiration =
     (let urlPath = BaseURL c @ ''/accounts/'' @ AccountID c @ ''/storage/kv/namespaces/'' @
                    namespaceID @ ''/values/'' @ PathEscape key;
          urlPath = (case expiration of
                       Some ttl \<Rightarrow> urlPath @ ''?expiration_ttl='' @ Itoa ttl
                     | None \<Rightarrow> urlPath)
      in case NewRequestWithContext out ctx MethodPut urlPath (RawBody val) of
           Inl err \<Rightarrow> Inl (''error creating request: '' @ err)
         | Inr req \<Rightarrow>
             Inr (req\<lparr>Header :=
                    Header_Add (Header_Add (Header req) ''Authorization'' (''Bearer '' @ APIToken c))
                      ''Content-Type'' ''application/octet-stream''\<rparr>))"

definition WriteValue ::
  "Outside \<Rightarrow> heap \<Rightarrow> KVClient \<Rightarrow> Context \<Rightarrow> string \<Rightarrow> string \<Rightarrow> string \<Rightarrow> int option \<Rightarrow>
   (error + unit) option" where
  "WriteValue out h k ctx namespaceID key val expiration =
     (case deref h (config k) of
        None \<Rightarrow> None
      | Some c \<Rightarrow> Some
         (case WriteValue_request out c ctx namespaceID key val expiration of
            Inl err \<Rightarrow> Inl err
          | Inr req \<Rightarrow>
         (case client_Do out (client k) req of
            Inl err \<Rightarrow> Inl (''error making request: '' @ err)
          | Inr resp \<Rightarrow>
              if StatusCode resp \<noteq> StatusOK then
                Inl (''unexpected status code: '' @ Itoa (StatusCode resp))
              else
                (case decode_Success out (ResponseBody resp) of
                   Inl err \<Rightarrow> Inl (''error decoding response: '' @ err)
                 | Inr success \<Rightarrow>
                     if \<not> success then Inl ''request was not successful''
                     else Inr ()))))"

definition ReadValue_request ::
  "Outside \<Rightarrow> CloudflareConfig \<Rightarrow> Context \<Rightarrow> string \<Rightarrow> string \<Rightarrow> error + Request" where
  "ReadValue_request out c ctx namespaceID key =
     (let urlPath = BaseURL c @ ''/accounts/'' @ AccountID c @ ''/storage/kv/namespaces/'' @
                    namespaceID @ ''/values/'' @ PathEscape key
      in case NewRequestWithContext out ctx MethodGet urlPath NoBody of
           Inl err \<Rightarrow> Inl (''error creating request: '' @ err)
         | Inr req \<Rightarrow>
             Inr (req\<lparr>Header := Header_Add (Header req) ''Authorization'' (''Bearer '' @ APIToken c)\<rparr>))"

definition ReadValue ::
  "Outside \<Rightarrow> heap \<Rightarrow> KVClient \<Rightarrow> Context \<Rightarrow> string \<Rightarrow> string \<Rightarrow> (error + string) option" where
  "ReadValue out h k ctx namespaceID key =
     (case deref h (config k) of
        None \<Rightarrow> None
      | Some c \<Rightarrow> Some
         (case ReadValue_request out c ctx namespaceID key of
            Inl err \<Rightarrow> Inl err
          | Inr req \<Rightarrow>
         (case client_Do out (client k) req of
            Inl err \<Rightarrow> Inl (''error making request: '' @ err)
          | Inr resp \<Rightarrow>
              if StatusCode resp = StatusNotFound then Inl (''key not found: '' @ key)
              else if StatusCode resp \<noteq> StatusOK then
                Inl (''unexpected status code: '' @ Itoa (StatusCode resp))
              else
                (case ReadErr resp of
                   Some err \<Rightarrow> Inl (''error reading response body: '' @ err)
                 | None \<Rightarrow> Inr (ResponseBody resp)))))"

definition DeleteValue_request ::
  "Outside \<Rightarrow> CloudflareConfig \<Rightarrow> Context \<Rightarrow> string \<Rightarrow> string \<Rightarrow> error + Request" where
  "DeleteValue_request out c ctx namespaceID key =
     (let urlPath = BaseURL c @ ''/accounts/'' @ AccountID c @ ''/storage/kv/namespaces/'' @
                    namespaceID @ ''/values/'' @ PathEscape key
      in case NewRequestWithContext out ctx MethodDelete urlPath NoBody of
           Inl err \<Rightarrow> Inl (''error creating request: '' @ err)
         | Inr req \<Rightarrow>
             Inr (req\<lparr>Header := Header_Add (Header req) ''Authorization'' (''Bearer '' @ APIToken c)\<rparr>))"

definition DeleteValue ::
  "Outside \<Rightarrow> heap \<Rightarrow> KVClient \<Rightarrow> Context \<Rightarrow> string \<Rightarrow> string \<Rightarrow> (error + unit) option" where
  "DeleteValue out h k ctx namespaceID key =
     (case deref h (config k) of
        None \<Rightarrow> None
      | Some c \<Rightarrow> Some
         (case DeleteValue_request out c ctx namespaceID key of
            Inl err \<Rightarrow> Inl err
          | Inr req \<Rightarrow>
         (case client_Do out (client k) req of
            Inl err \<Rightarrow> Inl (''error making request: '' @ err)
          | Inr resp \<Rightarrow>
              if StatusCode resp \<noteq> StatusOK then
                Inl (''unexpected status code: '' @ Itoa (StatusCode resp))
              else
                (case decode_Success out (ResponseBody resp) of
                   Inl err \<Rightarrow> Inl (''error decoding response: '' @ err)
                 | Inr success \<Rightarrow>
                     if \<not> success then Inl ''request was not successful''
                     else Inr ()))))"

section \<open>Package cloudflare: R2\<close>

text \<open>
  The metadata argument of \<open>UploadObject\<close> is a \<open>map[string]string\<close>: an association
  list, ranged over in the order of the list.
\<close>

fun add_metadata :: "Header \<Rightarrow> (string \<times> string) list \<Rightarrow> Header" where
  "add_metadata hdr [] = hdr"
| "add_metadata hdr ((k, v) # metadata) = add_metadata (Header_Add hdr (''X-Metadata-'' @ k) v) metadata"

definition UploadObject_request ::
  "Outside \<Rightarrow> CloudflareConfig \<Rightarrow> Context \<Rightarrow> string \<Rightarrow> string \<Rightarrow> string \<Rightarrow> string \<Rightarrow>
   (string \<times> string) list \<Rightarrow> error + Request" where
  "UploadObject_request out c ctx bucketName key data contentType metadata =
     (let url = BaseURL c @ ''/accounts/'' @ AccountID c @ ''/r2/buckets/'' @ bucketName @
                ''/objects/'' @ key
      in case NewRequestWithContext out ctx MethodPut url (RawBody data) of
           Inl err \<Rightarrow> Inl (''error creating request: '' @ err)
         | Inr req \<Rightarrow>
             (let hdr = Header_Add (Header req) ''Authorization'' (''Bearer '' @ APIToken c);
                  hdr = (if contentType \<noteq> [] then Header_Add hdr ''Content-Type'' contentType else hdr)
              in Inr (req\<lparr>Header := add_metadata hdr metadata\<rparr>)))"

definition UploadObject ::
  "Outside \<Rightarrow> heap \<Rightarrow> R2Client \<Rightarrow> Context \<Rightarrow> string \<Rightarrow> string \<Rightarrow> string \<Rightarrow> string \<Rightarrow>
   (string \<times> string) list \<Rightarrow> (error + R2Object) option" where
  "UploadObject out h r ctx bucketName key data contentType metadata =
     (case deref h (config r) of
        None \<Rightarrow> None
      | Some c \<Rightarrow> Some
         (case UploadObject_request out c ctx bucketName key data contentType metadata of
            Inl err \<Rightarrow> Inl err
          | Inr req \<Rightarrow>
         (case client_Do out (client r) req of
            Inl err \<Rightarrow> Inl (''error making request: '' @ err)
          | Inr resp \<Rightarrow>
              if StatusCode resp \<noteq> StatusOK then
                Inl (''unexpected status code: '' @ Itoa (StatusCode resp))
              else
                (case decode_R2Object out (ResponseBody resp) of
                   Inl err \<Rightarrow> Inl (''error decoding response: '' @ err)
                 | Inr (success, result) \<Rightarrow>
                     if \<not> success then Inl ''request was not successful''
                     else Inr result))))"


text \<open>
  The loop of \<open>GetObject\<close> over the response headers. \<open>v[0]\<close> panics on a header with
  no value: the result is \<open>None\<close>.
\<close>

fun extract_metadata :: "Header \<Rightarrow> (string \<times> string) list \<Rightarrow> (string \<times> string) list option" where
  "extract_metadata [] metadata = Some metadata"
| "extract_metadata ((k, v) # hdr) metadata =
     (if HasPrefix k ''X-Metadata-'' then
        (case v of
           [] \<Rightarrow> None
         | v0 # vs \<Rightarrow> extract_metadata hdr (AList.update (TrimPrefix k ''X-Metadata-'') v0 metadata))
      else extract_metadata hdr metadata)"


definition DeleteObject_request ::
  "Outside \<Rightarrow> CloudflareConfig \<Rightarrow> Context \<Rightarrow> string \<Rightarrow> string \<Rightarrow> error + Request" where
  "DeleteObject_request out c ctx bucketName key =
     (let url = BaseURL c @ ''/accounts/'' @ AccountID c @ ''/r2/buckets/'' @ bucketName @
                ''/objects/'' @ key
      in case NewRequestWithContext out ctx MethodDelete url NoBody of
           Inl err \<Rightarrow> Inl (''error creating request: '' @ err)
         | Inr req \<Rightarrow>
             Inr (req\<lparr>Header := Header_Add (Header req) ''Authorization'' (''Bearer '' @ APIToken c)\<rparr>))"

definition DeleteObject ::
  "Outside \<Rightarrow> heap \<Rightarrow> R2Client \<Rightarrow> Context \<Rightarrow> string \<Rightarrow> string \<Rightarrow> (error + unit) option" where
  "DeleteObject out h r ctx bucketName key =
     (case deref h (config r) of
        None \<Rightarrow> None
      | Some c \<Rightarrow> Some
         (case DeleteObject_request out c ctx bucketName key of
            Inl err \<Rightarrow> Inl err
          | Inr req \<Rightarrow>
         (case client_Do out (client r) req of
            Inl err \<Rightarrow> Inl (''error making request: '' @ err)
          | Inr resp \<Rightarrow>
              if StatusCode resp \<noteq> StatusOK then
                Inl (''unexpected status code: '' @ Itoa (StatusCode resp))
              else Inr ())))"

text \<open>
  An object store behind the HTTP client, as far as one upload and one download need
  it. The store is a table from the URL of an object to the upload request it last
  accepted. \<open>store_Do\<close> is what the client's \<open>Do\<close> returns against a store: the
  transport's refusal of a request that cannot be sent (the error without the name of
  the header); status 200 and the body
  \<open>reply\<close> for an upload; for a download of an object in the table, status 200
  with the object's bytes and the \<open>X-Metadata-\<close> headers of its upload as the client
  reads them, and status 404 for any other object. \<open>store_after\<close> is the table once
  the request has been served.
\<close>

type_synonym r2_store = "(string \<times> Request) list"

definition store_Do :: "string \<Rightarrow> r2_store \<Rightarrow> Request \<Rightarrow> error + Response" where
  "store_Do reply st req =
     (if \<not> sendable (Header req) then Inl ''net/http: invalid header field''
      else if Method req = MethodPut then
        Inr \<lparr>StatusCode = StatusOK, ResponseHeader = [], ResponseBody = reply,
             ReadErr = None\<rparr>
      else if Method req = MethodGet then
        (case map_of st (URL req) of
           None \<Rightarrow>
             Inr \<lparr>StatusCode = StatusNotFound, ResponseHeader = [], ResponseBody = [],
                  ReadErr = None\<rparr>
         | Some put \<Rightarrow>
             Inr \<lparr>StatusCode = StatusOK,
                  ResponseHeader =
                    filter (\<lambda>(k, vs). HasPrefix k ''X-Metadata-'') (read_header (Header put)),
                  ResponseBody = (case Body put of RawBody data \<Rightarrow> data | _ \<Rightarrow> []),
                  ReadErr = None\<rparr>)
      else Inr \<lparr>StatusCode = 405, ResponseHeader = [], ResponseBody = [], ReadErr = None\<rparr>)"



section \<open>Concrete inputs\<close>

definition fresh_writer :: ResponseWriter where
  "fresh_writer = \<lparr>wHeader = [], wStatus = None, wBody = []\<rparr>"

definition request_with :: "Header \<Rightarrow> Request" where
  "request_with hdr = \<lparr>Method = ''GET'', URL = ''/protected'', Header = hdr, Body = NoBody, Ctx = []\<rparr>"

definition alice :: Token where
  "alice = \<lparr>Issuer = ''https://securetoken.google.com/demo'', Subject = ''alice'',
            UID = ''alice'', Claims = []\<rparr>"

text \<open>A verifier that accepts the token \<open>valid-token\<close> and rejects every other.\<close>

definition example_auth :: FirebaseAuth where
  "example_auth =
     \<lparr>Auth_VerifyIDToken =
        (\<lambda>ctx idToken. if idToken = ''valid-token'' then Inr alice else Inl ''token rejected'')\<rparr>"

definition hello :: "unit Handler" where
  "hello = (\<lambda>(w, s) r. (Write w ''hello'', s))"

definition example_config :: CloudflareConfig where
  "example_config =
     \<lparr>APIToken = ''secret'', AccountID = ''acct'',
      BaseURL = ''https://api.cloudflare.com/client/v4'', Timeout = 30 * Second\<rparr>"

definition example_client :: Client where
  "example_client = \<lparr>config = 0, client = createHTTPClient example_config\<rparr>"

text \<open>
  The URL strings of the inputs below start with \<open>https://api.cloudflare.com/\<close> and go
  on with letters, digits and the bytes \<open>-_.~$&+,/:;=?@%\<close>, every \<open>%\<close> followed by two
  hexadecimal digits: the library parses such a string and encodes it again to the
  same string. \<open>plain_Parse\<close> stands for the library on these strings and takes no
  other.
\<close>

fun well_escaped :: "string \<Rightarrow> bool" where
  "well_escaped (c # a # b # s) =
     (if c = CHR ''%'' then a \<in> set ''0123456789abcdefABCDEF'' \<and>
                            b \<in> set ''0123456789abcdefABCDEF'' \<and> well_escaped s
      else well_escaped (a # b # s))"
| "well_escaped s = (CHR ''%'' \<notin> set s)"

definition plain_Parse :: "string \<Rightarrow> error + string" where
  "plain_Parse u =
     (if HasPrefix u ''https://api.cloudflare.com/'' \<and>
         list_all (\<lambda>c. c \<in> set lower_letters \<or> c \<in> set upper_letters \<or>
                       c \<in> set ''0123456789-_.~$&+,/:;=?@%'') u \<and>
         well_escaped u
      then Inr u else Inl ''a URL outside the examples'')"

text \<open>
  An outside that answers every request with \<open>resp\<close> and decodes
  every body as the D1 envelope \<open>d1\<close>, or as an envelope whose \<open>success\<close> field is
  \<open>ok\<close>. No input below has a directive that \<open>Errorf0\<close> leaves to \<open>fmt_rest\<close>.
\<close>

definition replying :: "Response \<Rightarrow> D1Response \<Rightarrow> bool \<Rightarrow> Outside" where
  "replying resp d1 ok =
     \<lparr>fmt_rest = (\<lambda>s. s),
      url_Parse = plain_Parse,
      client_Do = (\<lambda>cl req. Inr resp),
      decode_D1Response = (\<lambda>b. Inr d1),
      decode_Success = (\<lambda>b. Inr ok),
      decode_KVKeys = (\<lambda>b. Inr (ok, [])),
      decode_R2Object = (\<lambda>b. Inl ''unexpected end of JSON input'')\<rparr>"

text \<open>
  The body \<open>{"success":true,"result":{"key":"a.txt","size":5}}\<close>, with which a store
  answers an upload, and the object that it describes. The outside for the object
  store decodes this body, and no other; its \<open>client_Do\<close> is replaced by the store.
\<close>

definition uploaded_envelope :: string where
  "uploaded_envelope =
     ''{'' @ [CHR 0x22] @ ''success'' @ [CHR 0x22] @ '':true,'' @
     [CHR 0x22] @ ''result'' @ [CHR 0x22] @ '':{'' @
     [CHR 0x22] @ ''key'' @ [CHR 0x22] @ '':'' @ [CHR 0x22] @ ''a.txt'' @ [CHR 0x22] @ '','' @
     [CHR 0x22] @ ''size'' @ [CHR 0x22] @ '':5}}''"

definition uploaded :: R2Object where
  "uploaded = \<lparr>Key = ''a.txt'', Size = 5, ETag = [], ContentType = [], LastModified = [],
                Metadata = []\<rparr>"

definition store_outside :: Outside where
  "store_outside =
     \<lparr>fmt_rest = (\<lambda>s. s),
      url_Parse = plain_Parse,
      client_Do = (\<lambda>cl req. Inl ''no network''),
      decode_D1Response = (\<lambda>b. Inl ''unexpected end of JSON input''),
      decode_Success = (\<lambda>b. Inr True),
      decode_KVKeys = (\<lambda>b. Inr (True, [])),
      decode_R2Object = (\<lambda>b. if b = uploaded_envelope then Inr (True, uploaded)
                             else Inl ''unexpected end of JSON input'')\<rparr>"

definition response_with :: "int \<Rightarrow> string \<Rightarrow> Response" where
  "response_with code body =
     \<lparr>StatusCode = code, ResponseHeader = [], ResponseBody = body, ReadErr = None\<rparr>"

text \<open>
  A configuration written as a struct literal with the two credentials only, and two
  environments that differ in \<open>CLOUDFLARE_API_TOKEN\<close>, two that differ in another
  variable only.
\<close>

definition bare_config :: CloudflareConfig where
  "bare_config = \<lparr>APIToken = ''secret'', AccountID = ''acct'', BaseURL = [], Timeout = 0\<rparr>"




text \<open>
  What the three constructors do to the configuration they are given: the default
  base URL in place of an empty one.
\<close>

definition with_default_url :: "CloudflareConfig \<Rightarrow> CloudflareConfig" where
  "with_default_url c =
     (if BaseURL c = [] then c\<lparr>BaseURL := ''https://api.cloudflare.com/client/v4''\<rparr> else c)"

text \<open>The body \<open>{"success":false}\<close>.\<close>

definition false_envelope :: string where
  "false_envelope = ''{'' @ [CHR 0x22] @ ''success'' @ [CHR 0x22] @ '':false}''"

definition envelope :: "bool \<Rightarrow> D1Error list \<Rightarrow> D1ResponseItem list \<Rightarrow> D1Response" where
  "envelope ok errs items = \<lparr>Errors = errs, Messages = [], Result = items, Success = ok\<rparr>"

definition one_row :: D1ResponseItem where
  "one_row =
     \<lparr>Meta = \<lparr>ChangedDB = False, Changes = 0, Duration = 0, LastRowID = 0, RowsRead = 1,
              RowsWritten = 0, ServedByPrimary = True, ServedByRegion = ''WEUR'',
              SizeAfter = 8192, SQLDurationMS = 0\<rparr>,
      Results = [[(''id'', JInt 1)]], item_Success = True\<rparr>"

definition server_error :: "string \<Rightarrow> D1Error" where
  "server_error msg = \<lparr>Code = 7500, Message = msg, DocumentationURL = [], Pointer = []\<rparr>"


section \<open>Properties of package firebase\<close>

lemma canonical_Authorization: "CanonicalMIMEHeaderKey ''Authorization'' = ''Authorization''"
  by (simp add: CanonicalMIMEHeaderKey_def validHeaderFieldByte_def toUpper_def toLower_def
      lower_letters_def upper_letters_def)

lemma HasPrefix_append: "HasPrefix (pre @ s) pre"
  by (simp add: HasPrefix_def)

lemma TrimPrefix_append: "TrimPrefix (pre @ s) pre = s"
  by (simp add: TrimPrefix_def HasPrefix_def)

lemma HasPrefix_D: "HasPrefix s pre \<Longrightarrow> s = pre @ drop (length pre) s"
  unfolding HasPrefix_def by (metis append_take_drop_id)

text \<open>
  Claim C2. \<open>GetTokenFromRequest\<close> returns a token exactly when the
  \<open>Authorization\<close> header is the literal prefix \<open>Bearer\<close> and a space followed by
  that token; a header of any other shape fails with one of the two header errors, and
  a request without the header fails with the first of them.
\<close>

theorem GetTokenFromRequest_bearer:
  "(GetTokenFromRequest r = Inr tok \<longleftrightarrow>
      Header_Get (Header r) ''Authorization'' = ''Bearer '' @ tok) \<and>
   (\<not> HasPrefix (Header_Get (Header r) ''Authorization'') ''Bearer '' \<longrightarrow>
      GetTokenFromRequest r = Inl ''authorization header is required'' \<or>
      GetTokenFromRequest r =
        Inl (''authorization header must be in the format '' @ [CHR 0x27] @ ''Bearer {token}'' @ [CHR 0x27])) \<and>
   (map_of (Header r) ''Authorization'' = None \<longrightarrow>
      GetTokenFromRequest r = Inl ''authorization header is required'')"
proof (intro conjI impI)
  let ?a = "Header_Get (Header r) ''Authorization''"
  show "GetTokenFromRequest r = Inr tok \<longleftrightarrow> ?a = ''Bearer '' @ tok"
  proof
    assume "GetTokenFromRequest r = Inr tok"
    then have p: "HasPrefix ?a ''Bearer ''" and t: "tok = TrimPrefix ?a ''Bearer ''"
      by (auto simp: GetTokenFromRequest_def Let_def split: if_splits)
    from HasPrefix_D [OF p] t p show "?a = ''Bearer '' @ tok"
      by (simp add: TrimPrefix_def)
  next
    assume a: "?a = ''Bearer '' @ tok"
    then have "?a \<noteq> []" by simp
    with a show "GetTokenFromRequest r = Inr tok"
      using HasPrefix_append [of "''Bearer ''" tok] TrimPrefix_append [of "''Bearer ''" tok]
      by (simp add: GetTokenFromRequest_def Let_def del: append.simps)
  qed
next
  assume "\<not> HasPrefix (Header_Get (Header r) ''Authorization'') ''Bearer ''"
  then show "GetTokenFromRequest r = Inl ''authorization header is required'' \<or>
      GetTokenFromRequest r =
        Inl (''authorization header must be in the format '' @ [CHR 0x27] @ ''Bearer {token}'' @ [CHR 0x27])"
    by (simp add: GetTokenFromRequest_def Let_def)
next
  assume "map_of (Header r) ''Authorization'' = None"
  then have "Header_Get (Header r) ''Authorization'' = []"
    by (simp add: Header_Get_def canonical_Authorization)
  then show "GetTokenFromRequest r = Inl ''authorization header is required''"
    by (simp add: GetTokenFromRequest_def)
qed

text \<open>
  The inputs named by the specification: \<open>Bearer abc123\<close>, \<open>Token abc123\<close>, the
  empty string and a request without the header.
\<close>

theorem GetTokenFromRequest_bearer_witness:
  "GetTokenFromRequest (request_with [(''Authorization'', [''Bearer abc123''])]) = Inr ''abc123'' \<and>
   GetTokenFromRequest (request_with [(''Authorization'', [''Token abc123''])]) =
     Inl (''authorization header must be in the format '' @ [CHR 0x27] @ ''Bearer {token}'' @ [CHR 0x27]) \<and>
   GetTokenFromRequest (request_with [(''Authorization'', [''''])]) =
     Inl ''authorization header is required'' \<and>
   GetTokenFromRequest (request_with []) = Inl ''authorization header is required''"
  using GetTokenFromRequest_bearer [of "request_with [(''Authorization'', [''Bearer abc123''])]" "''abc123''"]
    GetTokenFromRequest_bearer [of "request_with [(''Authorization'', [''Token abc123''])]"]
    GetTokenFromRequest_bearer [of "request_with [(''Authorization'', [''''])]"]
    GetTokenFromRequest_bearer [of "request_with []"]
  by (simp add: request_with_def Header_Get_def canonical_Authorization HasPrefix_def
      GetTokenFromRequest_def TrimPrefix_def)

lemma wStatus_http_Error:
  "wStatus w = None \<Longrightarrow> wStatus (http_Error w err code) = Some code"
  by (simp add: http_Error_def Write_def WriteHeader_def)

lemma context_after_auth:
  "GetUIDFromContext (WithValue (WithValue ctx tokenKey (TokenValue token)) uidKey (StringValue uid)) = Inr uid"
  "GetTokenFromContext (WithValue (WithValue ctx tokenKey (TokenValue token)) uidKey (StringValue uid)) = Inr token"
  by (simp_all add: GetUIDFromContext_def GetTokenFromContext_def WithValue_def Value_def
      tokenKey_def uidKey_def)

text \<open>
  Claim C1. Both forms of the auth-wrapping handler, run on a wrapped handler whose
  invocations are logged. When no bearer token can be extracted, or the token is not
  verified, the response is \<open>http.Error\<close> with status 401 and the wrapped handler is
  not invoked: the log and the world are unchanged. When the token is verified, the
  wrapped handler is invoked exactly once, with the request whose context yields the
  verified UID and token. On a response writer that has not written a status yet,
  \<open>http.Error\<close> with status 401 makes the status 401.
\<close>

theorem auth_wrapper_gate:
  fixes "next" :: "'s Handler"
  shows
  "(\<forall>err. GetTokenFromRequest r = Inl err \<longrightarrow>
      AuthMiddleware fa (traced next) (w, (s, calls)) r =
        (http_Error w err StatusUnauthorized, (s, calls)) \<and>
      RequireAuth fa (traced next) (w, (s, calls)) r =
        (http_Error w err StatusUnauthorized, (s, calls))) \<and>
   (\<forall>idToken err.
      GetTokenFromRequest r = Inr idToken \<and> VerifyIDToken fa (Ctx r) idToken = Inl err \<longrightarrow>
      AuthMiddleware fa (traced next) (w, (s, calls)) r =
        (http_Error w (''Invalid token: '' @ err) StatusUnauthorized, (s, calls)) \<and>
      RequireAuth fa (traced next) (w, (s, calls)) r =
        (http_Error w (''Invalid token: '' @ err) StatusUnauthorized, (s, calls))) \<and>
   (\<forall>idToken token.
      GetTokenFromRequest r = Inr idToken \<and> VerifyIDToken fa (Ctx r) idToken = Inr token \<longrightarrow>
      (\<exists>ctx'.
         GetUIDFromContext ctx' = Inr (UID token) \<and>
         GetTokenFromContext ctx' = Inr token \<and>
         AuthMiddleware fa (traced next) (w, (s, calls)) r =
           (fst (next (w, s) (r\<lparr>Ctx := ctx'\<rparr>)),
            (snd (next (w, s) (r\<lparr>Ctx := ctx'\<rparr>)), calls @ [r\<lparr>Ctx := ctx'\<rparr>])) \<and>
         RequireAuth fa (traced next) (w, (s, calls)) r =
           (fst (next (w, s) (r\<lparr>Ctx := ctx'\<rparr>)),
            (snd (next (w, s) (r\<lparr>Ctx := ctx'\<rparr>)), calls @ [r\<lparr>Ctx := ctx'\<rparr>])))) \<and>
   (\<forall>msg. wStatus w = None \<longrightarrow> wStatus (http_Error w msg StatusUnauthorized) = Some 401)"
proof (intro conjI allI impI)
  fix err
  assume "GetTokenFromRequest r = Inl err"
  then show "AuthMiddleware fa (traced next) (w, (s, calls)) r =
      (http_Error w err StatusUnauthorized, (s, calls))"
    and "RequireAuth fa (traced next) (w, (s, calls)) r =
      (http_Error w err StatusUnauthorized, (s, calls))"
    by (simp_all add: AuthMiddleware_def RequireAuth_def)
next
  fix idToken err
  assume "GetTokenFromRequest r = Inr idToken \<and> VerifyIDToken fa (Ctx r) idToken = Inl err"
  then show "AuthMiddleware fa (traced next) (w, (s, calls)) r =
      (http_Error w (''Invalid token: '' @ err) StatusUnauthorized, (s, calls))"
    and "RequireAuth fa (traced next) (w, (s, calls)) r =
      (http_Error w (''Invalid token: '' @ err) StatusUnauthorized, (s, calls))"
    by (simp_all add: AuthMiddleware_def RequireAuth_def)
next
  fix idToken token
  assume ok: "GetTokenFromRequest r = Inr idToken \<and> VerifyIDToken fa (Ctx r) idToken = Inr token"
  let ?ctx = "WithValue (WithValue (Ctx r) tokenKey (TokenValue token)) uidKey (StringValue (UID token))"
  have "AuthMiddleware fa (traced next) (w, (s, calls)) r =
      (fst (next (w, s) (r\<lparr>Ctx := ?ctx\<rparr>)),
       (snd (next (w, s) (r\<lparr>Ctx := ?ctx\<rparr>)), calls @ [r\<lparr>Ctx := ?ctx\<rparr>]))"
    using ok by (simp add: AuthMiddleware_def traced_def Let_def split: prod.splits)
  moreover have "RequireAuth fa (traced next) (w, (s, calls)) r =
      (fst (next (w, s) (r\<lparr>Ctx := ?ctx\<rparr>)),
       (snd (next (w, s) (r\<lparr>Ctx := ?ctx\<rparr>)), calls @ [r\<lparr>Ctx := ?ctx\<rparr>]))"
    using ok by (simp add: RequireAuth_def traced_def Let_def split: prod.splits)
  ultimately show "\<exists>ctx'.
         GetUIDFromContext ctx' = Inr (UID token) \<and>
         GetTokenFromContext ctx' = Inr token \<and>
         AuthMiddleware fa (traced next) (w, (s, calls)) r =
           (fst (next (w, s) (r\<lparr>Ctx := ctx'\<rparr>)),
            (snd (next (w, s) (r\<lparr>Ctx := ctx'\<rparr>)), calls @ [r\<lparr>Ctx := ctx'\<rparr>])) \<and>
         RequireAuth fa (traced next) (w, (s, calls)) r =
           (fst (next (w, s) (r\<lparr>Ctx := ctx'\<rparr>)),
            (snd (next (w, s) (r\<lparr>Ctx := ctx'\<rparr>)), calls @ [r\<lparr>Ctx := ctx'\<rparr>]))"
    using context_after_auth [of "Ctx r" token "UID token"] by blast
next
  fix msg
  assume "wStatus w = None"
  then show "wStatus (http_Error w msg StatusUnauthorized) = Some 401"
    by (simp add: wStatus_http_Error StatusUnauthorized_def)
qed

lemma example_tokens:
  "GetTokenFromRequest (request_with [(''Authorization'', [''Bearer valid-token''])]) = Inr ''valid-token''"
  "GetTokenFromRequest (request_with [(''Authorization'', [''Bearer bad-token''])]) = Inr ''bad-token''"
  by (simp_all add: request_with_def Header_Get_def canonical_Authorization HasPrefix_def
      GetTokenFromRequest_def TrimPrefix_def)

text \<open>
  The verifier of the specification's example: \<open>Bearer bad-token\<close> and a request
  without the header end in 401 with an empty log, \<open>Bearer valid-token\<close> reaches the
  wrapped handler once with the UID \<open>alice\<close>.
\<close>

theorem auth_wrapper_gate_witness:
  "AuthMiddleware example_auth (traced hello) (fresh_writer, ((), []))
       (request_with [(''Authorization'', [''Bearer bad-token''])]) =
     (http_Error fresh_writer ''Invalid token: error verifying ID token: token rejected'' StatusUnauthorized,
      ((), [])) \<and>
   wStatus (http_Error fresh_writer ''Invalid token: error verifying ID token: token rejected''
              StatusUnauthorized) = Some 401 \<and>
   AuthMiddleware example_auth (traced hello) (fresh_writer, ((), [])) (request_with []) =
     (http_Error fresh_writer ''authorization header is required'' StatusUnauthorized, ((), [])) \<and>
   (\<exists>ctx'.
      GetUIDFromContext ctx' = Inr ''alice'' \<and>
      GetTokenFromContext ctx' = Inr alice \<and>
      RequireAuth example_auth (traced hello) (fresh_writer, ((), []))
          (request_with [(''Authorization'', [''Bearer valid-token''])]) =
        (Write fresh_writer ''hello'',
         ((), [request_with [(''Authorization'', [''Bearer valid-token''])]\<lparr>Ctx := ctx'\<rparr>])))"
proof -
  let ?bad = "request_with [(''Authorization'', [''Bearer bad-token''])]"
  let ?good = "request_with [(''Authorization'', [''Bearer valid-token''])]"
  have none: "GetTokenFromRequest (request_with []) = Inl ''authorization header is required''"
    by (simp add: request_with_def Header_Get_def GetTokenFromRequest_def)
  have bad: "VerifyIDToken example_auth (Ctx ?bad) ''bad-token'' =
      Inl ''error verifying ID token: token rejected''"
    by (simp add: VerifyIDToken_def example_auth_def)
  have good: "VerifyIDToken example_auth (Ctx ?good) ''valid-token'' = Inr alice"
    by (simp add: VerifyIDToken_def example_auth_def)
  have fresh: "wStatus fresh_writer = None"
    by (simp add: fresh_writer_def)
  have uid: "UID alice = ''alice''"
    by (simp add: alice_def)
  note g = auth_wrapper_gate [of _ example_auth hello fresh_writer "()" "[]"]
  from g [of ?bad] example_tokens(2) bad fresh
  have 1: "AuthMiddleware example_auth (traced hello) (fresh_writer, ((), [])) ?bad =
     (http_Error fresh_writer ''Invalid token: error verifying ID token: token rejected'' StatusUnauthorized,
      ((), []))"
    and 2: "wStatus (http_Error fresh_writer ''Invalid token: error verifying ID token: token rejected''
              StatusUnauthorized) = Some 401"
    by simp_all
  from g [of "request_with []"] none
  have 3: "AuthMiddleware example_auth (traced hello) (fresh_writer, ((), [])) (request_with []) =
     (http_Error fresh_writer ''authorization header is required'' StatusUnauthorized, ((), []))"
    by simp
  from g [of ?good] example_tokens(1) good
  have "\<exists>ctx'.
      GetUIDFromContext ctx' = Inr (UID alice) \<and>
      GetTokenFromContext ctx' = Inr alice \<and>
      RequireAuth example_auth (traced hello) (fresh_writer, ((), [])) ?good =
        (fst (hello (fresh_writer, ()) (?good\<lparr>Ctx := ctx'\<rparr>)),
         (snd (hello (fresh_writer, ()) (?good\<lparr>Ctx := ctx'\<rparr>)), [] @ [?good\<lparr>Ctx := ctx'\<rparr>]))"
    by blast
  then have 4: "\<exists>ctx'.
      GetUIDFromContext ctx' = Inr ''alice'' \<and>
      GetTokenFromContext ctx' = Inr alice \<and>
      RequireAuth example_auth (traced hello) (fresh_writer, ((), [])) ?good =
        (Write fresh_writer ''hello'', ((), [?good\<lparr>Ctx := ctx'\<rparr>]))"
    by (simp add: hello_def uid)
  from 1 2 3 4 show ?thesis by blast
qed

section \<open>Properties of package cloudflare: D1\<close>

text \<open>
  Claim C7. An \<open>ExecuteQuery\<close> whose request is sent and answered with status 200 and
  an envelope that decodes with \<open>success\<close> true fails with the error
  \<open>empty result set\<close> when the result list is empty, and returns the first element of
  the list otherwise.
\<close>

theorem ExecuteQuery_first_or_empty:
  assumes "deref h (config d) = Some c"
    and "ExecuteQuery_request out c ctx databaseID query params = Inr req"
    and "client_Do out (client d) req = Inr resp"
    and "StatusCode resp = 200"
    and "decode_D1Response out (ResponseBody resp) = Inr response"
    and "Success response"
  shows "(Result response = [] \<longrightarrow>
            ExecuteQuery out h d ctx databaseID query params = Some (Inl ''empty result set'')) \<and>
         (\<forall>item items. Result response = item # items \<longrightarrow>
            ExecuteQuery out h d ctx databaseID query params = Some (Inr item))"
  using assms by (simp add: ExecuteQuery_def StatusOK_def)

lemma example_deref: "deref [example_config] (config example_client) = Some example_config"
  by (simp add: deref_def example_client_def)

lemma example_query_request:
  "ExecuteQuery_request (replying resp d1 ok) example_config [] ''db'' ''SELECT 1'' [] =
     Inr \<lparr>Method = ''POST'',
          URL = ''https://api.cloudflare.com/client/v4/accounts/acct/d1/database/db/query'',
          Header = [(''Content-Type'', [''application/json'']), (''Authorization'', [''Bearer secret''])],
          Body = JSONBody (JObject [(''sql'', JString ''SELECT 1'')]), Ctx = []\<rparr>"
  by (simp add: ExecuteQuery_request_def replying_def example_config_def json_Marshal_def
      NewRequestWithContext_def plain_Parse_def HasPrefix_def MethodPost_def Header_Set_def CanonicalMIMEHeaderKey_def
      validHeaderFieldByte_def toUpper_def toLower_def lower_letters_def upper_letters_def)

text \<open>
  An envelope with an empty result list, and one with two rows, both with status 200
  and \<open>success\<close> true.
\<close>

theorem ExecuteQuery_first_or_empty_witness:
  "ExecuteQuery (replying (response_with 200 []) (envelope True [] []) True)
     [example_config] example_client [] ''db'' ''SELECT 1'' [] = Some (Inl ''empty result set'') \<and>
   ExecuteQuery (replying (response_with 200 []) (envelope True [] [one_row, one_row]) True)
     [example_config] example_client [] ''db'' ''SELECT 1'' [] = Some (Inr one_row)"
proof -
  let ?resp = "response_with 200 []"
  have a: "ExecuteQuery (replying ?resp (envelope True [] []) True)
     [example_config] example_client [] ''db'' ''SELECT 1'' [] = Some (Inl ''empty result set'')"
    using ExecuteQuery_first_or_empty [OF example_deref example_query_request,
        of ?resp "envelope True [] []" True ?resp "envelope True [] []"]
    by (simp add: replying_def response_with_def envelope_def)
  have b: "ExecuteQuery (replying ?resp (envelope True [] [one_row, one_row]) True)
     [example_config] example_client [] ''db'' ''SELECT 1'' [] = Some (Inr one_row)"
    using ExecuteQuery_first_or_empty [OF example_deref example_query_request,
        of ?resp "envelope True [] [one_row, one_row]" True ?resp "envelope True [] [one_row, one_row]"]
    by (simp add: replying_def response_with_def envelope_def)
  from a b show ?thesis by simp
qed

section \<open>Properties of package cloudflare: KV and R2\<close>

lemma not_found_prefix: "HasPrefix (''key not found: '' @ key) ''key not found: ''"
  by (simp add: HasPrefix_def)

lemma other_prefixes:
  "\<not> HasPrefix (''error creating request: '' @ e) ''key not found: ''"
  "\<not> HasPrefix (''error making request: '' @ e) ''key not found: ''"
  "\<not> HasPrefix (''unexpected status code: '' @ e) ''key not found: ''"
  "\<not> HasPrefix (''error reading response body: '' @ e) ''key not found: ''"
  by (simp_all add: HasPrefix_def)

text \<open>
  Claim C8. A \<open>ReadValue\<close> answered with status 404 fails with the error
  \<open>key not found:\<close> followed by the key. No other failure of \<open>ReadValue\<close> (the request
  cannot be created, the transport fails, another status, the body cannot be read) has
  an error that starts with \<open>key not found:\<close>, so that error tells the missing key
  from every other failure.
\<close>

theorem ReadValue_not_found_distinct:
  assumes "deref h (config k) = Some c"
  shows "(\<forall>req resp. ReadValue_request out c ctx namespaceID key = Inr req \<and>
            client_Do out (client k) req = Inr resp \<and> StatusCode resp = 404 \<longrightarrow>
            ReadValue out h k ctx namespaceID key = Some (Inl (''key not found: '' @ key))) \<and>
         (\<forall>e. ReadValue out h k ctx namespaceID key = Some (Inl e) \<longrightarrow>
            (HasPrefix e ''key not found: '' \<longleftrightarrow>
             (\<exists>req resp. ReadValue_request out c ctx namespaceID key = Inr req \<and>
                client_Do out (client k) req = Inr resp \<and> StatusCode resp = 404)))"
proof (intro conjI allI impI)
  fix req resp
  assume "ReadValue_request out c ctx namespaceID key = Inr req \<and>
            client_Do out (client k) req = Inr resp \<and> StatusCode resp = 404"
  with assms show "ReadValue out h k ctx namespaceID key = Some (Inl (''key not found: '' @ key))"
    by (simp add: ReadValue_def StatusNotFound_def)
next
  fix e
  assume e: "ReadValue out h k ctx namespaceID key = Some (Inl e)"
  show "HasPrefix e ''key not found: '' \<longleftrightarrow>
         (\<exists>req resp. ReadValue_request out c ctx namespaceID key = Inr req \<and>
            client_Do out (client k) req = Inr resp \<and> StatusCode resp = 404)"
  proof (cases "ReadValue_request out c ctx namespaceID key")
    case (Inl err)
    then have "e = err" using e assms by (simp add: ReadValue_def)
    moreover have "\<exists>m. err = ''error creating request: '' @ m"
      using Inl by (auto simp: ReadValue_request_def Let_def split: sum.splits)
    ultimately show ?thesis using Inl other_prefixes(1) by auto
  next
    case (Inr req)
    show ?thesis
    proof (cases "client_Do out (client k) req")
      case (Inl err)
      then have "e = ''error making request: '' @ err"
        using e assms Inr by (simp add: ReadValue_def)
      then show ?thesis using Inl Inr other_prefixes(2) by auto
    next
      case resp: (Inr resp)
      show ?thesis
      proof (cases "StatusCode resp = 404")
        case True
        then have "e = ''key not found: '' @ key"
          using e assms Inr resp by (simp add: ReadValue_def StatusNotFound_def)
        then show ?thesis using True Inr resp not_found_prefix by auto
      next
        case False
        then have "(\<exists>m. e = ''unexpected status code: '' @ m) \<or>
                   (\<exists>m. e = ''error reading response body: '' @ m)"
          using e assms Inr resp
          by (auto simp: ReadValue_def StatusNotFound_def split: if_splits option.splits)
        then have "\<not> HasPrefix e ''key not found: ''"
          using other_prefixes(3,4) by auto
        then show ?thesis using False Inr resp by auto
      qed
    qed
  qed
qed

lemma example_read_request:
  "ReadValue_request (replying resp d1 ok) example_config [] ''ns'' ''greeting'' =
     Inr \<lparr>Method = ''GET'',
          URL = ''https://api.cloudflare.com/client/v4/accounts/acct/storage/kv/namespaces/ns/values/greeting'',
          Header = [(''Authorization'', [''Bearer secret''])],
          Body = NoBody, Ctx = []\<rparr>"
  by (simp add: ReadValue_request_def replying_def example_config_def
      NewRequestWithContext_def plain_Parse_def HasPrefix_def
      MethodGet_def Header_Add_def canonical_Authorization
      PathEscape_def escape_def escape_byte_def shouldEscape_def lower_letters_def upper_letters_def)

text \<open>The key \<open>greeting\<close> answered with status 404, and with status 500.\<close>

theorem ReadValue_not_found_distinct_witness:
  "ReadValue (replying (response_with 404 []) (envelope False [] []) False)
     [example_config] example_client [] ''ns'' ''greeting'' = Some (Inl ''key not found: greeting'') \<and>
   HasPrefix ''key not found: greeting'' ''key not found: '' \<and>
   ReadValue (replying (response_with 500 []) (envelope False [] []) False)
     [example_config] example_client [] ''ns'' ''greeting'' = Some (Inl ''unexpected status code: 500'') \<and>
   \<not> HasPrefix ''unexpected status code: 500'' ''key not found: ''"
proof -
  let ?out = "replying (response_with 404 []) (envelope False [] []) False"
  have "ReadValue ?out [example_config] example_client [] ''ns'' ''greeting'' =
      Some (Inl (''key not found: '' @ ''greeting''))"
    using ReadValue_not_found_distinct [OF example_deref, of ?out "[]" "''ns''" "''greeting''"]
      example_read_request [of "response_with 404 []" "envelope False [] []" False]
    by (simp add: replying_def response_with_def)
  moreover have "ReadValue (replying (response_with 500 []) (envelope False [] []) False)
     [example_config] example_client [] ''ns'' ''greeting'' = Some (Inl ''unexpected status code: 500'')"
    using example_read_request [of "response_with 500 []" "envelope False [] []" False]
    by (simp add: ReadValue_def example_deref replying_def response_with_def StatusNotFound_def
        StatusOK_def Itoa_def digits.simps)
  ultimately show ?thesis by (simp add: HasPrefix_def)
qed

text \<open>
  Claim C10. \<open>DeleteObject\<close> of R2 returns the \<open>nil\<close> error for every response with
  status 200, whatever the body is and whatever it would decode to. \<open>DeleteValue\<close> and
  \<open>WriteValue\<close> of KV decode the body of such a response and fail with
  \<open>request was not successful\<close> when its \<open>success\<close> field is false.
\<close>

theorem DeleteObject_ignores_envelope:
  assumes "deref h (config r) = Some c"
  shows "(\<forall>req resp. DeleteObject_request out c ctx bucketName key = Inr req \<and>
            client_Do out (client r) req = Inr resp \<and> StatusCode resp = 200 \<longrightarrow>
            DeleteObject out h r ctx bucketName key = Some (Inr ())) \<and>
         (\<forall>req resp. DeleteValue_request out c ctx namespaceID key' = Inr req \<and>
            client_Do out (client r) req = Inr resp \<and> StatusCode resp = 200 \<and>
            decode_Success out (ResponseBody resp) = Inr False \<longrightarrow>
            DeleteValue out h r ctx namespaceID key' = Some (Inl ''request was not successful'')) \<and>
         (\<forall>req resp. WriteValue_request out c ctx namespaceID key' val expiration = Inr req \<and>
            client_Do out (client r) req = Inr resp \<and> StatusCode resp = 200 \<and>
            decode_Success out (ResponseBody resp) = Inr False \<longrightarrow>
            WriteValue out h r ctx namespaceID key' val expiration =
              Some (Inl ''request was not successful''))"
  using assms
  by (simp add: DeleteObject_def DeleteValue_def WriteValue_def StatusOK_def)

lemma example_delete_requests:
  "DeleteObject_request (replying resp d1 ok) example_config [] ''bucket'' ''a.txt'' =
     Inr \<lparr>Method = ''DELETE'',
          URL = ''https://api.cloudflare.com/client/v4/accounts/acct/r2/buckets/bucket/objects/a.txt'',
          Header = [(''Authorization'', [''Bearer secret''])],
          Body = NoBody, Ctx = []\<rparr>"
  "DeleteValue_request (replying resp d1 ok) example_config [] ''ns'' ''greeting'' =
     Inr \<lparr>Method = ''DELETE'',
          URL = ''https://api.cloudflare.com/client/v4/accounts/acct/storage/kv/namespaces/ns/values/greeting'',
          Header = [(''Authorization'', [''Bearer secret''])],
          Body = NoBody, Ctx = []\<rparr>"
  by (simp_all add: DeleteObject_request_def DeleteValue_request_def replying_def example_config_def
      NewRequestWithContext_def plain_Parse_def HasPrefix_def
      MethodDelete_def Header_Add_def canonical_Authorization
      PathEscape_def escape_def escape_byte_def shouldEscape_def lower_letters_def upper_letters_def)

text \<open>
  A response with status 200 whose body is \<open>{"success":false}\<close>, given to
  \<open>DeleteObject\<close> and to \<open>DeleteValue\<close>.
\<close>

theorem DeleteObject_ignores_envelope_witness:
  "DeleteObject (replying (response_with 200 false_envelope) (envelope False [] []) False)
     [example_config] example_client [] ''bucket'' ''a.txt'' = Some (Inr ()) \<and>
   DeleteValue (replying (response_with 200 false_envelope) (envelope False [] []) False)
     [example_config] example_client [] ''ns'' ''greeting'' =
     Some (Inl ''request was not successful'')"
proof -
  let ?out = "replying (response_with 200 false_envelope) (envelope False [] []) False"
  show ?thesis
    using DeleteObject_ignores_envelope [OF example_deref,
        where out = ?out and ctx = "[]" and bucketName = "''bucket''" and key = "''a.txt''"
          and namespaceID = "''ns''" and key' = "''greeting''"]
      example_delete_requests [of "response_with 200 false_envelope" "envelope False [] []" False]
    by (simp add: replying_def response_with_def)
qed

lemma upperhex_nth: "n < 16 \<Longrightarrow> upperhex ! n \<in> set ''0123456789ABCDEF''"
  using nth_mem [of n upperhex] by (simp add: upperhex_def)

lemma percent_escape_bytes:
  "upperhex ! (of_char (c::char) div 16) \<in> set ''0123456789ABCDEF'' \<and>
   upperhex ! (of_char c mod 16) \<in> set ''0123456789ABCDEF''"
proof -
  have "(of_char c :: nat) < 256" by simp
  then have "(of_char c :: nat) div 16 < 16" by arith
  moreover have "(of_char c :: nat) mod 16 < 16" by simp
  ultimately show ?thesis using upperhex_nth by blast
qed

lemma not_escaped_cases:
  "\<not> (if A then False else if B then False else if C then D else True) \<Longrightarrow>
   A \<or> B \<or> (C \<and> \<not> D)"
  by (simp split: if_splits)

lemma unescaped_path_byte:
  assumes "\<not> shouldEscape c encodePathSegment"
  shows "c \<in> set (lower_letters @ upper_letters @ ''0123456789'' @ ''-_.~$&+:=@%'')"
proof -
  from assms have "(c \<in> set lower_letters \<or> c \<in> set upper_letters \<or> c \<in> set ''0123456789'') \<or>
      c \<in> set ''-_.~'' \<or> (c \<in> set ''$&+,/:;=?@'' \<and> c \<notin> set ''/;,?'')"
    unfolding shouldEscape_def encoding.case by (rule not_escaped_cases)
  moreover have "c \<in> set ''-_.~'' \<Longrightarrow> c \<in> set ''-_.~$&+:=@%''" by auto
  moreover have "c \<in> set ''$&+,/:;=?@'' \<and> c \<notin> set ''/;,?'' \<Longrightarrow> c \<in> set ''-_.~$&+:=@%''"
    by auto
  ultimately show ?thesis
    unfolding set_append Un_iff by blast
qed

lemma unescaped_query_byte:
  assumes "\<not> shouldEscape c encodeQueryComponent"
  shows "c \<in> set (lower_letters @ upper_letters @ ''0123456789'' @ ''-_.~+%'')"
proof -
  from assms have "(c \<in> set lower_letters \<or> c \<in> set upper_letters \<or> c \<in> set ''0123456789'') \<or>
      c \<in> set ''-_.~'' \<or> (c \<in> set ''$&+,/:;=?@'' \<and> \<not> True)"
    unfolding shouldEscape_def encoding.case by (rule not_escaped_cases)
  moreover have "c \<in> set ''-_.~'' \<Longrightarrow> c \<in> set ''-_.~+%''" by auto
  ultimately show ?thesis
    unfolding set_append Un_iff by blast
qed

lemma percent_escape_subset:
  assumes "CHR ''%'' \<in> S" and "set ''0123456789ABCDEF'' \<subseteq> S"
  shows "set [CHR ''%'', upperhex ! (of_char (c::char) div 16), upperhex ! (of_char c mod 16)] \<subseteq> S"
proof -
  from percent_escape_bytes [of c] assms(2)
  have "upperhex ! (of_char c div 16) \<in> S" and "upperhex ! (of_char c mod 16) \<in> S"
    by blast+
  with assms(1) show ?thesis by simp
qed

lemma escape_byte_path:
  "set (escape_byte encodePathSegment c) \<subseteq>
     set (lower_letters @ upper_letters @ ''0123456789'' @ ''-_.~$&+:=@%'')"
proof (cases "shouldEscape c encodePathSegment")
  case True
  then have "escape_byte encodePathSegment c =
      [CHR ''%'', upperhex ! (of_char c div 16), upperhex ! (of_char c mod 16)]"
    by (simp add: escape_byte_def)
  moreover have "CHR ''%'' \<in> set (lower_letters @ upper_letters @ ''0123456789'' @ ''-_.~$&+:=@%'')"
    by simp
  moreover have "set ''0123456789ABCDEF'' \<subseteq>
      set (lower_letters @ upper_letters @ ''0123456789'' @ ''-_.~$&+:=@%'')"
    by (simp add: upper_letters_def)
  ultimately show ?thesis using percent_escape_subset by metis
next
  case False
  then have "escape_byte encodePathSegment c = [c]"
    by (simp add: escape_byte_def)
  then show ?thesis using unescaped_path_byte [OF False] by simp
qed

lemma escape_byte_query:
  "set (escape_byte encodeQueryComponent c) \<subseteq>
     set (lower_letters @ upper_letters @ ''0123456789'' @ ''-_.~+%'')"
proof (cases "c = CHR '' ''")
  case True
  then show ?thesis by (simp add: escape_byte_def)
next
  case notsp: False
  show ?thesis
  proof (cases "shouldEscape c encodeQueryComponent")
    case True
    then have "escape_byte encodeQueryComponent c =
        [CHR ''%'', upperhex ! (of_char c div 16), upperhex ! (of_char c mod 16)]"
      using notsp by (simp add: escape_byte_def)
    moreover have "CHR ''%'' \<in> set (lower_letters @ upper_letters @ ''0123456789'' @ ''-_.~+%'')"
      by simp
    moreover have "set ''0123456789ABCDEF'' \<subseteq>
        set (lower_letters @ upper_letters @ ''0123456789'' @ ''-_.~+%'')"
      by (simp add: upper_letters_def)
    ultimately show ?thesis using percent_escape_subset by metis
  next
    case False
    then have "escape_byte encodeQueryComponent c = [c]"
      using notsp by (simp add: escape_byte_def)
    then show ?thesis using unescaped_query_byte [OF False] by simp
  qed
qed

lemma PathEscape_bytes:
  "set (PathEscape s) \<subseteq> set (lower_letters @ upper_letters @ ''0123456789'' @ ''-_.~$&+:=@%'')"
  unfolding PathEscape_def escape_def using escape_byte_path by (induction s) auto

lemma QueryEscape_bytes:
  "set (QueryEscape s) \<subseteq> set (lower_letters @ upper_letters @ ''0123456789'' @ ''-_.~+%'')"
  unfolding QueryEscape_def escape_def using escape_byte_query by (induction s) auto


text \<open>
  Claim C4, as the code has it. Every KV operation hands to
  \<open>http.NewRequestWithContext\<close> a URL string made of the base URL, the account ID and
  the namespace ID as they are given, and, for \<open>WriteValue\<close>, \<open>ReadValue\<close> and
  \<open>DeleteValue\<close>, the key passed through \<open>url.PathEscape\<close>; the prefix of \<open>ListKeys\<close>,
  when not empty, is passed through \<open>url.QueryEscape\<close>. The request is built exactly
  when the library accepts this string, and its URL is what the library makes of the
  string. An escaped key holds only letters, digits and the bytes \<open>-_.~$&+:=@%\<close> (no
  slash, no question mark), an escaped prefix only letters, digits and \<open>-_.~+%\<close>.
\<close>

theorem KV_request_urls:
  "(\<forall>u. (\<exists>req. ListKeys_request out c ctx namespaceID prefix = Inr req \<and> URL req = u) \<longleftrightarrow>
      url_Parse out
        (BaseURL c @ ''/accounts/'' @ AccountID c @ ''/storage/kv/namespaces/'' @
         namespaceID @ ''/keys'' @
         (if prefix = [] then [] else ''?prefix='' @ QueryEscape prefix)) = Inr u) \<and>
   (\<forall>u. (\<exists>req. WriteValue_request out c ctx namespaceID key val expiration = Inr req \<and>
            URL req = u) \<longleftrightarrow>
      url_Parse out
        (BaseURL c @ ''/accounts/'' @ AccountID c @ ''/storage/kv/namespaces/'' @
         namespaceID @ ''/values/'' @ PathEscape key @
         (case expiration of None \<Rightarrow> [] | Some ttl \<Rightarrow> ''?expiration_ttl='' @ Itoa ttl)) = Inr u) \<and>
   (\<forall>u. (\<exists>req. ReadValue_request out c ctx namespaceID key = Inr req \<and> URL req = u) \<longleftrightarrow>
      url_Parse out
        (BaseURL c @ ''/accounts/'' @ AccountID c @ ''/storage/kv/namespaces/'' @
         namespaceID @ ''/values/'' @ PathEscape key) = Inr u) \<and>
   (\<forall>u. (\<exists>req. DeleteValue_request out c ctx namespaceID key = Inr req \<and> URL req = u) \<longleftrightarrow>
      url_Parse out
        (BaseURL c @ ''/accounts/'' @ AccountID c @ ''/storage/kv/namespaces/'' @
         namespaceID @ ''/values/'' @ PathEscape key) = Inr u) \<and>
   set (PathEscape key) \<subseteq>
     set (lower_letters @ upper_letters @ ''0123456789'' @ ''-_.~$&+:=@%'') \<and>
   set (QueryEscape prefix) \<subseteq>
     set (lower_letters @ upper_letters @ ''0123456789'' @ ''-_.~+%'')"
proof (intro conjI allI)
  fix u
  show "(\<exists>req. ListKeys_request out c ctx namespaceID prefix = Inr req \<and> URL req = u) \<longleftrightarrow>
      url_Parse out
        (BaseURL c @ ''/accounts/'' @ AccountID c @ ''/storage/kv/namespaces/'' @
         namespaceID @ ''/keys'' @
         (if prefix = [] then [] else ''?prefix='' @ QueryEscape prefix)) = Inr u"
    by (cases "prefix = []")
      (auto simp: ListKeys_request_def NewRequestWithContext_def Let_def
        simp del: append.simps split: sum.splits)
next
  fix u
  show "(\<exists>req. WriteValue_request out c ctx namespaceID key val expiration = Inr req \<and>
            URL req = u) \<longleftrightarrow>
      url_Parse out
        (BaseURL c @ ''/accounts/'' @ AccountID c @ ''/storage/kv/namespaces/'' @
         namespaceID @ ''/values/'' @ PathEscape key @
         (case expiration of None \<Rightarrow> [] | Some ttl \<Rightarrow> ''?expiration_ttl='' @ Itoa ttl)) = Inr u"
    by (cases expiration)
      (auto simp: WriteValue_request_def NewRequestWithContext_def Let_def
        simp del: append.simps split: sum.splits)
next
  fix u
  show "(\<exists>req. ReadValue_request out c ctx namespaceID key = Inr req \<and> URL req = u) \<longleftrightarrow>
      url_Parse out
        (BaseURL c @ ''/accounts/'' @ AccountID c @ ''/storage/kv/namespaces/'' @
         namespaceID @ ''/values/'' @ PathEscape key) = Inr u"
    by (auto simp: ReadValue_request_def NewRequestWithContext_def Let_def
        simp del: append.simps split: sum.splits)
next
  fix u
  show "(\<exists>req. DeleteValue_request out c ctx namespaceID key = Inr req \<and> URL req = u) \<longleftrightarrow>
      url_Parse out
        (BaseURL c @ ''/accounts/'' @ AccountID c @ ''/storage/kv/namespaces/'' @
         namespaceID @ ''/values/'' @ PathEscape key) = Inr u"
    by (auto simp: DeleteValue_request_def NewRequestWithContext_def Let_def
        simp del: append.simps split: sum.splits)
next
  show "set (PathEscape key) \<subseteq>
     set (lower_letters @ upper_letters @ ''0123456789'' @ ''-_.~$&+:=@%'')"
    by (rule PathEscape_bytes)
next
  show "set (QueryEscape prefix) \<subseteq>
     set (lower_letters @ upper_letters @ ''0123456789'' @ ''-_.~+%'')"
    by (rule QueryEscape_bytes)
qed

lemma example_escapes:
  "PathEscape ''a/b'' = ''a%2Fb''"
  "PathEscape ''user/1 x'' = ''user%2F1%20x''"
  "QueryEscape ''a b&c'' = ''a+b%26c''"
  by (simp_all add: PathEscape_def QueryEscape_def escape_def escape_byte_def shouldEscape_def
      upperhex_def lower_letters_def upper_letters_def)

lemma example_kv_requests:
  "WriteValue_request (replying resp d1 ok) example_config [] ''a/b'' ''user/1 x'' ''v'' None =
     Inr \<lparr>Method = ''PUT'',
          URL = ''https://api.cloudflare.com/client/v4/accounts/acct/storage/kv/namespaces/a/b/values/user%2F1%20x'',
          Header = [(''Authorization'', [''Bearer secret'']),
                    (''Content-Type'', [''application/octet-stream''])],
          Body = RawBody ''v'', Ctx = []\<rparr>"
  "ListKeys_request (replying resp d1 ok) example_config [] ''a/b'' ''a b&c'' =
     Inr \<lparr>Method = ''GET'',
          URL = ''https://api.cloudflare.com/client/v4/accounts/acct/storage/kv/namespaces/a/b/keys?prefix=a+b%26c'',
          Header = [(''Authorization'', [''Bearer secret''])],
          Body = NoBody, Ctx = []\<rparr>"
  by (simp_all add: WriteValue_request_def ListKeys_request_def replying_def example_config_def
      NewRequestWithContext_def plain_Parse_def HasPrefix_def MethodPut_def MethodGet_def
      Header_Add_def canonical_Authorization example_escapes CanonicalMIMEHeaderKey_def validHeaderFieldByte_def toUpper_def toLower_def
      lower_letters_def upper_letters_def)

text \<open>
  The same operations on the key \<open>user/1 x\<close>, the prefix \<open>a b&c\<close> and the namespace
  \<open>a/b\<close>.
\<close>

theorem KV_request_urls_witness:
  "(\<exists>req. WriteValue_request (replying (response_with 200 []) (envelope True [] []) True)
             example_config [] ''a/b'' ''user/1 x'' ''v'' None = Inr req \<and>
          URL req = ''https://api.cloudflare.com/client/v4/accounts/acct/storage/kv/namespaces/a/b/values/user%2F1%20x'') \<and>
   (\<exists>req. ListKeys_request (replying (response_with 200 []) (envelope True [] []) True)
             example_config [] ''a/b'' ''a b&c'' = Inr req \<and>
          URL req = ''https://api.cloudflare.com/client/v4/accounts/acct/storage/kv/namespaces/a/b/keys?prefix=a+b%26c'') \<and>
   CHR ''/'' \<notin> set (PathEscape ''user/1 x'')"
proof -
  let ?out = "replying (response_with 200 []) (envelope True [] []) True"
  let ?W = "''https://api.cloudflare.com/client/v4/accounts/acct/storage/kv/namespaces/a/b/values/user%2F1%20x''"
  let ?L = "''https://api.cloudflare.com/client/v4/accounts/acct/storage/kv/namespaces/a/b/keys?prefix=a+b%26c''"
  note k = KV_request_urls [of ?out example_config "[]" "''a/b''" "''a b&c''" "''user/1 x''" "''v''" None]
  have w: "url_Parse ?out
      (BaseURL example_config @ ''/accounts/'' @ AccountID example_config @
       ''/storage/kv/namespaces/'' @ ''a/b'' @ ''/values/'' @ PathEscape ''user/1 x'' @
       (case None :: int option of None \<Rightarrow> [] | Some ttl \<Rightarrow> ''?expiration_ttl='' @ Itoa ttl)) = Inr ?W"
    by (simp add: replying_def plain_Parse_def HasPrefix_def example_config_def example_escapes
        lower_letters_def upper_letters_def)
  have l: "url_Parse ?out
      (BaseURL example_config @ ''/accounts/'' @ AccountID example_config @
       ''/storage/kv/namespaces/'' @ ''a/b'' @ ''/keys'' @
       (if ''a b&c'' = [] then [] else ''?prefix='' @ QueryEscape ''a b&c'')) = Inr ?L"
    by (simp add: replying_def plain_Parse_def HasPrefix_def example_config_def example_escapes
        lower_letters_def upper_letters_def)
  have "CHR ''/'' \<notin> set (lower_letters @ upper_letters @ ''0123456789'' @ ''-_.~$&+:=@%'')"
    by (simp add: lower_letters_def upper_letters_def)
  with k have s: "CHR ''/'' \<notin> set (PathEscape ''user/1 x'')" by blast
  from k w have "\<exists>req. WriteValue_request ?out example_config [] ''a/b'' ''user/1 x'' ''v'' None = Inr req \<and>
      URL req = ?W"
    by blast
  moreover from k l have "\<exists>req. ListKeys_request ?out example_config [] ''a/b'' ''a b&c'' = Inr req \<and>
      URL req = ?L"
    by blast
  ultimately show ?thesis using s by blast
qed

text \<open>
  Claim C4 as stated fails: a namespace ID with a slash goes into the URL as it is,
  where escaping the segment would have written \<open>%2F\<close>.
\<close>

theorem KV_namespace_escaped_counterexample:
  "WriteValue_request (replying (response_with 200 []) (envelope True [] []) True)
       example_config [] ''a/b'' ''user/1 x'' ''v'' None =
     Inr \<lparr>Method = ''PUT'',
          URL = ''https://api.cloudflare.com/client/v4/accounts/acct/storage/kv/namespaces/a/b/values/user%2F1%20x'',
          Header = [(''Authorization'', [''Bearer secret'']),
                    (''Content-Type'', [''application/octet-stream''])],
          Body = RawBody ''v'', Ctx = []\<rparr> \<and>
   ''https://api.cloudflare.com/client/v4/accounts/acct/storage/kv/namespaces/a/b/values/user%2F1%20x'' \<noteq>
     BaseURL example_config @ ''/accounts/'' @ AccountID example_config @
       ''/storage/kv/namespaces/'' @ PathEscape ''a/b'' @ ''/values/'' @ PathEscape ''user/1 x''"
  using example_kv_requests(1) [of "response_with 200 []" "envelope True [] []" True]
  by (simp add: example_escapes example_config_def)

section \<open>Properties of package cloudflare: the configuration\<close>

lemma with_default_url_idem: "with_default_url (with_default_url c) = with_default_url c"
  by (simp add: with_default_url_def)

lemma constructors_heap:
  assumes "deref h cfg = Some c"
  shows "NewD1Client h cfg =
           Some (h[cfg := with_default_url c],
                 \<lparr>config = cfg, client = createHTTPClient (with_default_url c)\<rparr>)"
    and "NewR2Client h cfg =
           Some (h[cfg := with_default_url c],
                 \<lparr>config = cfg, client = createHTTPClient (with_default_url c)\<rparr>)"
    and "NewKVClient h cfg =
           Some (h[cfg := with_default_url c],
                 \<lparr>config = cfg, client = createHTTPClient (with_default_url c)\<rparr>)"
  using assms
  by (simp_all add: NewD1Client_def NewR2Client_def NewKVClient_def with_default_url_def Let_def)

lemma deref_update:
  "deref h cfg = Some c \<Longrightarrow> deref (h[cfg := c']) cfg = Some c'"
  by (auto simp: deref_def split: if_splits)

lemma NewStorage_heap:
  assumes "deref h cfg = Some c"
  shows "\<exists>st. NewStorage h cfg = Some (h[cfg := with_default_url c], st)"
proof -
  let ?c = "with_default_url c"
  let ?h = "h[cfg := ?c]"
  let ?cl = "\<lparr>config = cfg, client = createHTTPClient ?c\<rparr>"
  have 1: "deref ?h cfg = Some ?c"
    using assms by (rule deref_update)
  have d1: "NewD1Client h cfg = Some (?h, ?cl)"
    by (rule constructors_heap(1) [OF assms])
  have r2: "NewR2Client ?h cfg = Some (?h, ?cl)"
    using constructors_heap(2) [OF 1] by (simp add: with_default_url_idem)
  have kv: "NewKVClient ?h cfg = Some (?h, ?cl)"
    using constructors_heap(3) [OF 1] by (simp add: with_default_url_idem)
  show ?thesis
    unfolding NewStorage_def by (simp add: d1 r2 kv)
qed

text \<open>A configuration made by \<open>NewConfig\<close> has a base URL: no constructor changes it.\<close>

lemma NewConfig_then_NewStorage:
  assumes "NewConfig h apiToken accountID = (h1, cfg)"
  shows "\<exists>st. NewStorage h1 cfg = Some (h1, st)"
proof -
  let ?c = "\<lparr>APIToken = apiToken, AccountID = accountID,
             BaseURL = ''https://api.cloudflare.com/client/v4'', Timeout = 30 * Second\<rparr>"
  from assms have h1: "h1 = h @ [?c]" and cfg: "cfg = length h"
    by (simp_all add: NewConfig_def alloc_def)
  have d: "deref h1 cfg = Some ?c"
    by (simp add: h1 cfg deref_def)
  have "h1[cfg := with_default_url ?c] = h1"
    by (simp add: h1 cfg with_default_url_def)
  with NewStorage_heap [OF d] show ?thesis by simp
qed

text \<open>
  Claim C5, as the code has it. Each constructor, and \<open>NewStorage\<close>, which calls the
  three of them on one configuration, leaves every other configuration of the heap
  as it is and leaves the API token, the account ID and the timeout of its own
  configuration as they are; it leaves the base URL as it is when the base URL is not
  empty, and writes the default URL into the shared configuration when the base URL is
  empty. The operations of the clients take the heap and return no heap: they only
  read the configuration.
\<close>

theorem constructors_frame:
  assumes "deref h cfg = Some c"
    and "(\<exists>cl. NewD1Client h cfg = Some (h', cl)) \<or> (\<exists>cl. NewR2Client h cfg = Some (h', cl)) \<or>
         (\<exists>cl. NewKVClient h cfg = Some (h', cl)) \<or> (\<exists>st. NewStorage h cfg = Some (h', st))"
  shows "length h' = length h \<and>
         (\<forall>a. a \<noteq> cfg \<longrightarrow> deref h' a = deref h a) \<and>
         (\<exists>c'. deref h' cfg = Some c' \<and>
            APIToken c' = APIToken c \<and> AccountID c' = AccountID c \<and> Timeout c' = Timeout c \<and>
            BaseURL c' =
              (if BaseURL c = [] then ''https://api.cloudflare.com/client/v4'' else BaseURL c)) \<and>
         (BaseURL c \<noteq> [] \<longrightarrow> h' = h)"
proof -
  have h': "h' = h[cfg := with_default_url c]"
    using assms(2) constructors_heap [OF assms(1)] NewStorage_heap [OF assms(1)] by auto
  have lt: "cfg < length h" and c: "c = h ! cfg"
    using assms(1) by (auto simp: deref_def split: if_splits)
  have "length h' = length h" by (simp add: h')
  moreover have "\<forall>a. a \<noteq> cfg \<longrightarrow> deref h' a = deref h a"
    by (simp add: h' deref_def)
  moreover have "deref h' cfg = Some (with_default_url c)"
    unfolding h' using assms(1) by (rule deref_update)
  moreover have "BaseURL c \<noteq> [] \<longrightarrow> h' = h"
    by (simp add: h' with_default_url_def c)
  ultimately show ?thesis
    by (simp add: with_default_url_def)
qed


text \<open>
  \<open>NewStorage\<close> on a configuration with a base URL leaves the heap as it is;
  \<open>NewD1Client\<close> on a configuration without one changes the base URL only.
\<close>

theorem constructors_frame_witness:
  "(\<exists>st. NewStorage [example_config] 0 = Some ([example_config], st)) \<and>
   (\<exists>cl c'. NewD1Client [bare_config] 0 = Some ([c'], cl) \<and>
      APIToken c' = ''secret'' \<and> AccountID c' = ''acct'' \<and> Timeout c' = 0 \<and>
      BaseURL c' = ''https://api.cloudflare.com/client/v4'')"
proof -
  have d: "deref [example_config] 0 = Some example_config" "deref [bare_config] 0 = Some bare_config"
    by (simp_all add: deref_def)
  from NewStorage_heap [OF d(1)] obtain st where
    st: "NewStorage [example_config] 0 = Some ([example_config][0 := with_default_url example_config], st)"
    by blast
  then have "(\<exists>cl. NewD1Client [example_config] 0 = Some ([example_config][0 := with_default_url example_config], cl)) \<or>
      (\<exists>cl. NewR2Client [example_config] 0 = Some ([example_config][0 := with_default_url example_config], cl)) \<or>
      (\<exists>cl. NewKVClient [example_config] 0 = Some ([example_config][0 := with_default_url example_config], cl)) \<or>
      (\<exists>st. NewStorage [example_config] 0 = Some ([example_config][0 := with_default_url example_config], st))"
    by blast
  from constructors_frame [OF d(1) this]
  have "[example_config][0 := with_default_url example_config] = [example_config]"
    by (simp add: example_config_def)
  with st have a: "\<exists>st. NewStorage [example_config] 0 = Some ([example_config], st)"
    by auto
  let ?h = "[bare_config][0 := with_default_url bare_config]"
  let ?cl = "\<lparr>config = 0, client = createHTTPClient (with_default_url bare_config)\<rparr>"
  have n: "NewD1Client [bare_config] 0 = Some (?h, ?cl)"
    by (rule constructors_heap(1) [OF d(2)])
  then have "(\<exists>cl. NewD1Client [bare_config] 0 = Some (?h, cl)) \<or>
      (\<exists>cl. NewR2Client [bare_config] 0 = Some (?h, cl)) \<or>
      (\<exists>cl. NewKVClient [bare_config] 0 = Some (?h, cl)) \<or>
      (\<exists>st. NewStorage [bare_config] 0 = Some (?h, st))"
    by blast
  from constructors_frame [OF d(2) this]
  obtain c' where "deref ?h 0 = Some c'" "APIToken c' = ''secret''" "AccountID c' = ''acct''"
    "Timeout c' = 0" "BaseURL c' = ''https://api.cloudflare.com/client/v4''"
    by (auto simp: bare_config_def)
  moreover from this(1) have "?h = [c']"
    by (simp add: deref_def)
  ultimately have b: "\<exists>cl c'. NewD1Client [bare_config] 0 = Some ([c'], cl) \<and>
      APIToken c' = ''secret'' \<and> AccountID c' = ''acct'' \<and> Timeout c' = 0 \<and>
      BaseURL c' = ''https://api.cloudflare.com/client/v4''"
    using n by auto
  from a b show ?thesis by blast
qed

text \<open>
  Claim C5 as stated fails: \<open>NewD1Client\<close> writes the base URL of a configuration
  that has none.
\<close>

theorem config_immutable_counterexample:
  "NewD1Client [bare_config] 0 =
     Some ([\<lparr>APIToken = ''secret'', AccountID = ''acct'',
             BaseURL = ''https://api.cloudflare.com/client/v4'', Timeout = 0\<rparr>],
           \<lparr>config = 0, client = \<lparr>ClientTimeout = 0\<rparr>\<rparr>) \<and>
   BaseURL bare_config = [] \<and>
   [\<lparr>APIToken = ''secret'', AccountID = ''acct'',
     BaseURL = ''https://api.cloudflare.com/client/v4'', Timeout = 0\<rparr>] \<noteq> [bare_config]"
  by (simp add: NewD1Client_def deref_def bare_config_def createHTTPClient_def)






section \<open>Properties of package cloudflare: R2 metadata\<close>



















lemma extract_metadata_append:
  "extract_metadata (xs @ ys) acc =
     (case extract_metadata xs acc of None \<Rightarrow> None | Some acc' \<Rightarrow> extract_metadata ys acc')"
  by (induction xs acc rule: extract_metadata.induct) (auto split: list.splits)



lemma canonical_Content_Type: "CanonicalMIMEHeaderKey ''Content-Type'' = ''Content-Type''"
  by (simp add: CanonicalMIMEHeaderKey_def validHeaderFieldByte_def toUpper_def toLower_def
      lower_letters_def upper_letters_def)









lemma example_canonical_keys:
  "CanonicalMIMEHeaderKey ''user'' = ''User''"
  "CanonicalMIMEHeaderKey ''Content-Id'' = ''Content-Id''"
  "CanonicalMIMEHeaderKey ''X-Metadata-user'' = ''X-Metadata-User''"
  "CanonicalMIMEHeaderKey ''X-Metadata-User'' = ''X-Metadata-User''"
  "CanonicalMIMEHeaderKey ''X-Metadata-Content-Id'' = ''X-Metadata-Content-Id''"
  by (simp_all add: CanonicalMIMEHeaderKey_def validHeaderFieldByte_def toUpper_def toLower_def
      lower_letters_def upper_letters_def)

lemma example_object_url:
  "plain_Parse (BaseURL example_config @ ''/accounts/'' @ AccountID example_config @
      ''/r2/buckets/'' @ ''bucket'' @ ''/objects/'' @ ''a.txt'') =
   Inr ''https://api.cloudflare.com/client/v4/accounts/acct/r2/buckets/bucket/objects/a.txt''"
  by (simp add: plain_Parse_def HasPrefix_def example_config_def lower_letters_def upper_letters_def)




text \<open>
  A metadata value with a line feed: the transport refuses the request, and
  \<open>UploadObject\<close> fails before anything reaches the store.
\<close>

lemma example_upload_refused:
  "UploadObject (store_outside\<lparr>client_Do := (\<lambda>cl. store_Do uploaded_envelope [])\<rparr>)
     [example_config] example_client [] ''bucket'' ''a.txt'' ''hello'' ''text/plain''
     [(''user'', ''jo'' @ [CHR 0x0A] @ ''hn'')] =
   Some (Inl ''error making request: net/http: invalid header field'')"
proof -
  let ?up = "store_outside\<lparr>client_Do := (\<lambda>cl. store_Do uploaded_envelope [])\<rparr>"
  let ?put = "\<lparr>Method = ''PUT'',
      URL = ''https://api.cloudflare.com/client/v4/accounts/acct/r2/buckets/bucket/objects/a.txt'',
      Header = [(''Authorization'', [''Bearer secret'']), (''Content-Type'', [''text/plain'']),
                (''X-Metadata-User'', [''jo'' @ [CHR 0x0A] @ ''hn''])],
      Body = RawBody ''hello'', Ctx = []\<rparr>"
  have p: "url_Parse ?up (BaseURL example_config @ ''/accounts/'' @
      AccountID example_config @ ''/r2/buckets/'' @ ''bucket'' @ ''/objects/'' @ ''a.txt'') =
      Inr ''https://api.cloudflare.com/client/v4/accounts/acct/r2/buckets/bucket/objects/a.txt''"
    using example_object_url
    by (simp only: store_outside_def Outside.select_convs Outside.update_convs)
  have put: "UploadObject_request ?up example_config [] ''bucket'' ''a.txt'' ''hello'' ''text/plain''
      [(''user'', ''jo'' @ [CHR 0x0A] @ ''hn'')] = Inr ?put"
    unfolding UploadObject_request_def NewRequestWithContext_def Let_def p
    by (simp add: example_config_def MethodPut_def Header_Add_def canonical_Authorization
        canonical_Content_Type example_canonical_keys)
  have "\<not> ValidHeaderFieldValue (''jo'' @ [CHR 0x0A] @ ''hn'')"
    by (simp add: ValidHeaderFieldValue_def isCTL_def isLWS_def)
  then have "\<not> sendable (Header ?put)"
    by (simp add: sendable_def)
  then have do_put: "store_Do uploaded_envelope [] ?put = Inl ''net/http: invalid header field''"
    by (simp only: store_Do_def simp_thms if_True)
  have c: "client_Do ?up = (\<lambda>cl. store_Do uploaded_envelope [])"
    by (simp only: store_outside_def Outside.select_convs Outside.update_convs)
  show ?thesis
    unfolding UploadObject_def
    by (simp only: example_deref put c do_put option.case sum.case) simp
qed

section \<open>Properties of package cloudflare: the errors of D1\<close>

text \<open>
  The parts of claim C9 that hold on every call: the body of the request has the
  field \<open>params\<close> exactly when the parameter list is not empty, a response with a
  status other than 200 fails with an error that names the status, and an envelope
  whose \<open>success\<close> field is false fails.
\<close>

lemma ExecuteQuery_request_params:
  assumes "ExecuteQuery_request out c ctx databaseID query params = Inr req"
  shows "\<exists>fields. Body req = JSONBody (JObject fields) \<and> Method req = ''POST'' \<and>
           map_of fields ''sql'' = Some (JString query) \<and>
           (''params'' \<in> fst ` set fields \<longleftrightarrow> params \<noteq> [])"
  using assms
  by (auto simp: ExecuteQuery_request_def json_Marshal_def NewRequestWithContext_def Let_def
      MethodPost_def split: sum.splits option.splits if_splits)

lemma ExecuteQuery_failures:
  assumes "deref h (config d) = Some c"
    and "ExecuteQuery_request out c ctx databaseID query params = Inr req"
    and "client_Do out (client d) req = Inr resp"
  shows "StatusCode resp \<noteq> 200 \<longrightarrow>
           ExecuteQuery out h d ctx databaseID query params =
             Some (Inl (''unexpected status code: '' @ Itoa (StatusCode resp) @ '', body: '' @
                        ResponseBody resp))"
    and "StatusCode resp = 200 \<and> decode_D1Response out (ResponseBody resp) = Inr response \<and>
         \<not> Success response \<longrightarrow>
           (\<exists>e. ExecuteQuery out h d ctx databaseID query params = Some (Inl e))"
    and "StatusCode resp = 200 \<and> decode_D1Response out (ResponseBody resp) = Inr response \<and>
         \<not> Success response \<and> Errors response = e # es \<longrightarrow>
           ExecuteQuery out h d ctx databaseID query params =
             Some (Inl (Errorf0 (fmt_rest out) (''request was not successful: '' @ Message e)))"
  using assms by (simp_all add: ExecuteQuery_def StatusOK_def)

text \<open>
  The message of the first server-reported error is used as the format string of
  \<open>fmt.Errorf\<close>. A message without a percent sign is carried as it is.
\<close>

lemma Errorf0_no_percent: "CHR ''%'' \<notin> set s \<Longrightarrow> Errorf0 rest s = s"
  by (induction s) auto

text \<open>
  Claim C9 at the failing input: status 200, \<open>success\<close> false and the first error
  message \<open>unrecognized token: %s\<close>. The returned error does not carry the message:
  the verb \<open>%s\<close> in it has been formatted with no operand.
\<close>

theorem ExecuteQuery_message_as_format:
  "ExecuteQuery
     (replying (response_with 200 []) (envelope False [server_error ''unrecognized token: %s''] []) True)
     [example_config] example_client [] ''db'' ''SELECT 1'' [] =
   Some (Inl ''request was not successful: unrecognized token: %!s(MISSING)'')"
  using example_query_request [of "response_with 200 []"
      "envelope False [server_error ''unrecognized token: %s''] []" True]
  by (simp add: ExecuteQuery_def example_deref replying_def response_with_def envelope_def
      server_error_def StatusOK_def plain_verb_def)

end
